theory Spec2Isabelle
  imports Complex_Main
begin

section \<open>Strings and the regular expressions of the sources\<close>

text \<open>
  Python strings are modelled as \<^typ>\<open>string\<close>, lists of characters with code points
  below 256. On that range \<^verbatim>\<open>\d\<close> matches exactly the ASCII digits and \<^verbatim>\<open>\s\<close> (and
  \<^verbatim>\<open>str.strip()\<close>) exactly the code points 9-13, 28-32, 133 and 160.
\<close>

definition is_digit :: "char \<Rightarrow> bool" where
  "is_digit c = (c \<in> set ''0123456789'')"

definition is_space :: "char \<Rightarrow> bool" where
  "is_space c =
     (let n = (of_char c :: nat)
      in (9 \<le> n \<and> n \<le> 13) \<or> (28 \<le> n \<and> n \<le> 32) \<or> n = 133 \<or> n = 160)"

text \<open>\<^verbatim>\<open>s.startswith(p)\<close>, returning what follows the prefix.\<close>

fun strip_prefix :: "string \<Rightarrow> string \<Rightarrow> string option" where
  "strip_prefix [] s = Some s"
| "strip_prefix (p # ps) [] = None"
| "strip_prefix (p # ps) (c # cs) = (if p = c then strip_prefix ps cs else None)"

text \<open>\<^verbatim>\<open>s.rstrip("/")\<close> and \<^verbatim>\<open>s.strip()\<close>.\<close>

definition rstrip_slash :: "string \<Rightarrow> string" where
  "rstrip_slash s = rev (dropWhile (\<lambda>c. c = CHR ''/'') (rev s))"

definition strip :: "string \<Rightarrow> string" where
  "strip s = rev (dropWhile is_space (rev (dropWhile is_space s)))"

text \<open>
  \<^verbatim>\<open>EP_URL_PATTERN = re.compile(r"^https://github\.com/openshift/enhancements/pull/\d+/?$")\<close>
  applied with \<^verbatim>\<open>match\<close>. After the literal prefix, \<^verbatim>\<open>\d+\<close> is greedy and a shorter run
  of digits is followed by a digit, which neither \<^verbatim>\<open>/?\<close> nor \<^verbatim>\<open>$\<close> accepts, so the
  digits are the whole leading run. \<^verbatim>\<open>$\<close> holds at the end of the string and just before
  a newline that ends the string.
\<close>

definition ep_url_pattern_match :: "string \<Rightarrow> bool" where
  "ep_url_pattern_match s =
     (case strip_prefix ''https://github.com/openshift/enhancements/pull/'' s of
        None \<Rightarrow> False
      | Some rest \<Rightarrow>
          takeWhile is_digit rest \<noteq> [] \<and>
          dropWhile is_digit rest \<in>
            {[], ''/'', [CHR 0x0A], [CHR ''/'', CHR 0x0A]})"

text \<open>
  \<^verbatim>\<open>re.match(r"https://github\.com/([^/]+/[^/]+)/pull/(\d+)", pr_url)\<close> of
  \<^verbatim>\<open>_check_pr_status\<close>, returning the groups 1 and 2. Neither \<^verbatim>\<open>[^/]+\<close> can cross a
  slash and each must be followed by one, so both are whole path segments.
\<close>

definition not_slash :: "char \<Rightarrow> bool" where
  "not_slash c = (c \<noteq> CHR ''/'')"

definition match_pr_url :: "string \<Rightarrow> (string \<times> string) option" where
  "match_pr_url pr_url =
     (case strip_prefix ''https://github.com/'' pr_url of
        None \<Rightarrow> None
      | Some r1 \<Rightarrow>
          (let owner = takeWhile not_slash r1; r2 = dropWhile not_slash r1
           in if owner = [] then None
              else (case strip_prefix ''/'' r2 of
                 None \<Rightarrow> None
               | Some r3 \<Rightarrow>
                   (let name = takeWhile not_slash r3; r4 = dropWhile not_slash r3
                    in if name = [] then None
                       else (case strip_prefix ''/pull/'' r4 of
                          None \<Rightarrow> None
                        | Some r5 \<Rightarrow>
                            (let num = takeWhile is_digit r5
                             in if num = [] then None
                                else Some (owner @ ''/'' @ name, num)))))))"

text \<open>
  \<^verbatim>\<open>re.search(r"https://github\.com/[^\s)]+/pull/\d+", text)\<close> of \<^verbatim>\<open>extract_pr_url\<close>,
  returning \<^verbatim>\<open>group(0)\<close> of the leftmost match. At a position where the literal prefix
  stands, the greedy \<^verbatim>\<open>[^\s)]+\<close> first takes the whole run of admissible characters and
  then gives characters back one at a time until \<^verbatim>\<open>/pull/\d\<close> follows: the match ends
  at the last \<^verbatim>\<open>/pull/\<close> plus digit inside the run, with at least one character before
  it, and \<^verbatim>\<open>\d+\<close> then takes every digit that follows.
\<close>

definition url_char :: "char \<Rightarrow> bool" where
  "url_char c = (\<not> is_space c \<and> c \<noteq> CHR '')'')"

definition pull_at :: "string \<Rightarrow> bool" where
  "pull_at s = (case strip_prefix ''/pull/'' s of
                  None \<Rightarrow> False
                | Some r \<Rightarrow> takeWhile is_digit r \<noteq> [])"

text \<open>
  \<open>backtrack k rest\<close>: the run \<^verbatim>\<open>[^\s)]+\<close> currently takes \<open>k\<close> characters of \<open>rest\<close>;
  try the remainder of the pattern there, else give one character back.
\<close>

fun backtrack :: "nat \<Rightarrow> string \<Rightarrow> string option" where
  "backtrack 0 rest = None"
| "backtrack (Suc k) rest =
     (if pull_at (drop (Suc k) rest)
      then Some (take (Suc k) rest @ ''/pull/'' @
                 takeWhile is_digit (drop (Suc k + 6) rest))
      else backtrack k rest)"

definition match_here :: "string \<Rightarrow> string option" where
  "match_here s =
     (case strip_prefix ''https://github.com/'' s of
        None \<Rightarrow> None
      | Some rest \<Rightarrow>
          (case backtrack (length (takeWhile url_char rest)) rest of
             None \<Rightarrow> None
           | Some m \<Rightarrow> Some (''https://github.com/'' @ m)))"

fun extract_pr_url :: "string \<Rightarrow> string option" where
  "extract_pr_url [] = match_here []"
| "extract_pr_url (c # cs) =
     (case match_here (c # cs) of
        Some m \<Rightarrow> Some m
      | None \<Rightarrow> extract_pr_url cs)"

definition join_nl :: "string list \<Rightarrow> string" where
  "join_nl parts = (case parts of [] \<Rightarrow> [] | p # ps \<Rightarrow> p @ concat (map (\<lambda>q. CHR 0x0A # q) ps))"

section \<open>Exceptions\<close>

text \<open>
  A raised Python exception, with its \<^verbatim>\<open>str(exc)\<close>. \<open>Exception\<close> stands for an
  instance of the class \<^verbatim>\<open>Exception\<close> (what \<^verbatim>\<open>except Exception\<close> and
  \<^verbatim>\<open>isinstance(result, Exception)\<close> accept), \<open>BaseException\<close> for one that derives
  from \<^verbatim>\<open>BaseException\<close> only (\<^verbatim>\<open>KeyboardInterrupt\<close>, \<^verbatim>\<open>SystemExit\<close>).
\<close>

datatype exn = Exception string | BaseException string

datatype http_error = HTTPException nat string

text \<open>The \<^verbatim>\<open>KeyError\<close> of a dict lookup; its text is the key between single quotes.\<close>

definition key_error :: "string \<Rightarrow> exn" where
  "key_error k = Exception ([CHR 0x27] @ k @ [CHR 0x27])"

section \<open>Session Runner (server/agent.py)\<close>

text \<open>
  The messages of the agent SDK. A \<^verbatim>\<open>ToolResultBlock\<close> content that is not a string is
  held as its \<^verbatim>\<open>json.dumps(content, default=str)\<close>; a block or message of another class
  is held as its class name and the \<^verbatim>\<open>json.dumps\<close> of its \<^verbatim>\<open>__dict__\<close>. The cost of a
  \<^verbatim>\<open>ResultMessage\<close> may be \<^verbatim>\<open>None\<close>; costs are real numbers.
\<close>

datatype tool_content = StrContent string | JsonContent string

datatype block =
    TextBlock string
  | ThinkingBlock string
  | ToolUseBlock string string
  | ToolResultBlock string tool_content "bool option"
  | OtherBlock string string

datatype message =
    AssistantMessage "block list"
  | ResultMessage "real option" "string option"
  | OtherMessage string string

text \<open>The conversation entries, one constructor for each dict that \<^verbatim>\<open>run_agent\<close> builds.\<close>

datatype entry =
    AssistantText string
  | AssistantThinking string
  | AssistantToolUse string string
  | AssistantToolResult string string bool
  | AssistantOther string string
  | ResultEntry "string option" "real option"
  | OtherEntry string string

text \<open>
  The dataclass \<^verbatim>\<open>AgentResult\<close>; its fields carry the prefix \<open>r_\<close> here, and
  \<open>success\<close> is its property.
\<close>

record AgentResult =
  r_output :: string
  r_cost_usd :: "real option"
  r_error :: "string option"
  r_conversation :: "entry list"

definition success :: "AgentResult \<Rightarrow> bool" where
  "success r = (r_error r = None)"

text \<open>
  The agent's answer to \<^verbatim>\<open>query(prompt, options)\<close> is an asynchronous iterator: it
  yields messages and then ends, or raises. Items after a \<open>Raise\<close> are never reached.
\<close>

datatype stream_item = Yield message | Raise exn

text \<open>
  The local variables of \<^verbatim>\<open>run_agent\<close>. The callback \<^verbatim>\<open>on_message\<close> acts on a state of
  the caller, of type \<open>'w\<close>, and may raise.
\<close>

record locals =
  output_parts :: "string list"
  conv :: "entry list"
  cost :: "real option"

type_synonym 'w callback = "entry \<Rightarrow> 'w \<Rightarrow> exn option \<times> 'w"

definition emit :: "'w callback option \<Rightarrow> entry \<Rightarrow> locals \<times> 'w \<Rightarrow> exn option \<times> locals \<times> 'w" where
  "emit on_message e s =
     (case s of (l, w) \<Rightarrow>
        (let l' = l\<lparr>conv := conv l @ [e]\<rparr>
         in case on_message of
              None \<Rightarrow> (None, l', w)
            | Some f \<Rightarrow> (case f e w of (r, w') \<Rightarrow> (r, l', w'))))"

definition append_part :: "string \<Rightarrow> locals \<times> 'w \<Rightarrow> locals \<times> 'w" where
  "append_part t s = (case s of (l, w) \<Rightarrow> (l\<lparr>output_parts := output_parts l @ [t]\<rparr>, w))"

fun handle_block :: "'w callback option \<Rightarrow> block \<Rightarrow> locals \<times> 'w \<Rightarrow> exn option \<times> locals \<times> 'w" where
  "handle_block f (TextBlock t) s = emit f (AssistantText t) (append_part t s)"
| "handle_block f (ThinkingBlock t) s = emit f (AssistantThinking t) s"
| "handle_block f (ToolUseBlock name inp) s = emit f (AssistantToolUse name inp) s"
| "handle_block f (ToolResultBlock tool_use_id content is_error) s =
     emit f (AssistantToolResult tool_use_id
               (case content of StrContent c \<Rightarrow> c | JsonContent c \<Rightarrow> c)
               (case is_error of None \<Rightarrow> False | Some b \<Rightarrow> b)) s"
| "handle_block f (OtherBlock type_name detail) s = emit f (AssistantOther type_name detail) s"

fun handle_blocks :: "'w callback option \<Rightarrow> block list \<Rightarrow> locals \<times> 'w \<Rightarrow> exn option \<times> locals \<times> 'w" where
  "handle_blocks f [] s = (None, s)"
| "handle_blocks f (b # bs) s =
     (case handle_block f b s of
        (Some e, s') \<Rightarrow> (Some e, s')
      | (None, s') \<Rightarrow> handle_blocks f bs s')"

text \<open>
  In the \<^verbatim>\<open>ResultMessage\<close> branch the log line formats \<^verbatim>\<open>cost_usd\<close> with \<^verbatim>\<open>:.4f\<close>
  after the entry is emitted; on \<^verbatim>\<open>None\<close> that raises a \<^verbatim>\<open>TypeError\<close>.
\<close>

definition format_none_error :: exn where
  "format_none_error = Exception ''unsupported format string passed to NoneType.__format__''"

fun handle_message :: "'w callback option \<Rightarrow> message \<Rightarrow> locals \<times> 'w \<Rightarrow> exn option \<times> locals \<times> 'w" where
  "handle_message f (AssistantMessage content) s = handle_blocks f content s"
| "handle_message f (ResultMessage total_cost_usd result) s =
     (case s of (l, w) \<Rightarrow>
        (let s1 = (l\<lparr>cost := total_cost_usd\<rparr>, w);
             s2 = (case result of
                     None \<Rightarrow> s1
                   | Some r \<Rightarrow> if r \<noteq> [] then append_part r s1 else s1)
         in case emit f (ResultEntry result total_cost_usd) s2 of
              (Some e, s3) \<Rightarrow> (Some e, s3)
            | (None, s3) \<Rightarrow>
                (if total_cost_usd = None then (Some format_none_error, s3) else (None, s3))))"
| "handle_message f (OtherMessage type_name detail) s = emit f (OtherEntry type_name detail) s"

text \<open>The body of the \<^verbatim>\<open>try\<close>: the \<^verbatim>\<open>async for\<close> over the stream.\<close>

fun consume :: "'w callback option \<Rightarrow> stream_item list \<Rightarrow> locals \<times> 'w \<Rightarrow> exn option \<times> locals \<times> 'w" where
  "consume f [] s = (None, s)"
| "consume f (Raise e # rest) s = (Some e, s)"
| "consume f (Yield m # rest) s =
     (case handle_message f m s of
        (Some e, s') \<Rightarrow> (Some e, s')
      | (None, s') \<Rightarrow> consume f rest s')"

definition locals0 :: locals where
  "locals0 = \<lparr>output_parts = [], conv = [], cost = Some 0\<rparr>"

text \<open>
  \<^verbatim>\<open>run_agent\<close>. The collaborator \<open>query\<close> maps prompt, working directory and system
  prompt to the stream (the tool list and the plugin path are constants of the
  module). An \<open>Exception\<close> is caught; a \<open>BaseException\<close> passes the
  \<^verbatim>\<open>except Exception\<close> clause and reaches the caller (\<open>Inl\<close>). The closing log line
  formats the cost as the \<^verbatim>\<open>ResultMessage\<close> branch does.
\<close>

type_synonym agent_query = "string \<Rightarrow> string \<Rightarrow> string \<Rightarrow> stream_item list"

definition failed_result :: "string \<Rightarrow> locals \<Rightarrow> AgentResult" where
  "failed_result d l = \<lparr>r_output = [], r_cost_usd = cost l, r_error = Some d, r_conversation = conv l\<rparr>"

definition except_clause :: "exn \<Rightarrow> locals \<Rightarrow> exn + AgentResult" where
  "except_clause e l = (case e of Exception d \<Rightarrow> Inr (failed_result d l) | BaseException d \<Rightarrow> Inl e)"

definition run_agent ::
  "string \<Rightarrow> string \<Rightarrow> string \<Rightarrow> 'w callback option \<Rightarrow> agent_query \<Rightarrow> 'w \<Rightarrow> (exn + AgentResult) \<times> 'w" where
  "run_agent prompt working_dir system_prompt on_message query w =
     (case consume on_message (query prompt working_dir system_prompt) (locals0, w) of
        (Some e, l, w') \<Rightarrow> (except_clause e l, w')
      | (None, l, w') \<Rightarrow>
          (if cost l = None then (except_clause format_none_error l, w')
           else (Inr \<lparr>r_output = join_nl (output_parts l), r_cost_usd = cost l,
                      r_error = None, r_conversation = conv l\<rparr>, w')))"

text \<open>
  \<^verbatim>\<open>run_workflow\<close>: \<open>wid\<close> is the fresh \<^verbatim>\<open>uuid.uuid4().hex[:12]\<close> and \<open>system_prompt\<close> the
  formatted \<^verbatim>\<open>WORKFLOW_SYSTEM_PROMPT\<close>.
\<close>

definition run_workflow ::
  "string \<Rightarrow> string \<Rightarrow> string \<Rightarrow> 'w callback option \<Rightarrow> agent_query \<Rightarrow> 'w \<Rightarrow> (exn + AgentResult) \<times> 'w" where
  "run_workflow wid system_prompt ep_url on_message query w =
     run_agent
       (''Execute the full OAPE feature development workflow for this '' @
        ''Enhancement Proposal: '' @ ep_url)
       (''/tmp/oape-'' @ wid) system_prompt on_message query w"

section \<open>Job store and endpoints (server/server.py)\<close>

text \<open>
  A job is the dict that \<^verbatim>\<open>submit_job\<close> stores, without its \<^verbatim>\<open>asyncio.Condition\<close>:
  waking the readers changes no field. The store \<^verbatim>\<open>jobs\<close> is a map from job ids.
\<close>

record job =
  job_status_field :: string
  job_ep_url :: string
  job_conversation :: "entry list"
  job_output :: string
  job_cost_usd :: "real option"
  job_error :: "string option"

type_synonym jobs = "string \<rightharpoonup> job"

definition validate_ep_url :: "string \<Rightarrow> http_error + unit" where
  "validate_ep_url ep_url =
     (if \<not> ep_url_pattern_match (rstrip_slash ep_url)
      then Inl (HTTPException 400
             (''Invalid enhancement PR URL. '' @
              ''Expected format: https://github.com/openshift/enhancements/pull/<number>''))
      else Inr ())"

definition new_job :: "string \<Rightarrow> job" where
  "new_job ep_url =
     \<lparr>job_status_field = ''running'', job_ep_url = ep_url, job_conversation = [],
      job_output = [], job_cost_usd = Some 0, job_error = None\<rparr>"

text \<open>
  \<^verbatim>\<open>submit_job\<close>: \<open>job_id\<close> is the fresh \<^verbatim>\<open>uuid.uuid4().hex[:12]\<close>. The background task
  that it starts is \<open>run_job\<close> below.
\<close>

definition submit_job :: "string \<Rightarrow> string \<Rightarrow> jobs \<Rightarrow> (http_error + string) \<times> jobs" where
  "submit_job job_id ep_url jobs =
     (case validate_ep_url ep_url of
        Inl e \<Rightarrow> (Inl e, jobs)
      | Inr _ \<Rightarrow> (Inr job_id, jobs(job_id \<mapsto> new_job ep_url)))"

record status_response =
  st_status :: string
  st_ep_url :: string
  st_output :: string
  st_cost_usd :: "real option"
  st_error :: "string option"
  st_message_count :: nat

definition job_status :: "string \<Rightarrow> jobs \<Rightarrow> http_error + status_response" where
  "job_status job_id jobs =
     (case jobs job_id of
        None \<Rightarrow> Inl (HTTPException 404 ''Job not found'')
      | Some j \<Rightarrow>
          Inr \<lparr>st_status = job_status_field j, st_ep_url = job_ep_url j,
               st_output = job_output j, st_cost_usd = job_cost_usd j,
               st_error = job_error j, st_message_count = length (job_conversation j)\<rparr>)"

text \<open>
  The frames of \<^verbatim>\<open>stream_job.event_generator\<close>; a \<open>MessageFrame\<close> stands for the event
  \<^verbatim>\<open>message\<close> with the \<^verbatim>\<open>json.dumps\<close> of the entry as data.
\<close>

datatype frame =
    MessageFrame entry
  | CompleteFrame string string "real option" "string option"
  | KeepaliveFrame

text \<open>
  The inner loop \<^verbatim>\<open>while cursor < len(conversation)\<close>: the frames it yields and the
  cursor it leaves.
\<close>

function send_new_messages :: "nat \<Rightarrow> entry list \<Rightarrow> frame list \<times> nat" where
  "send_new_messages cursor conversation =
     (if cursor < length conversation
      then (case send_new_messages (cursor + 1) conversation of
              (frames, c) \<Rightarrow> (MessageFrame (conversation ! cursor) # frames, c))
      else ([], cursor))"
  by pat_completeness auto
termination
  by (relation "measure (\<lambda>(cursor, conversation). length conversation - cursor)") auto

declare send_new_messages.simps [simp del]

text \<open>
  One round of \<^verbatim>\<open>while True\<close> on the store as it stands: the new messages, then the
  \<^verbatim>\<open>complete\<close> frame when the job has left \<^verbatim>\<open>running\<close> (the generator returns: \<open>None\<close>
  for the cursor), else the cursor to resume from after the wait.
\<close>

definition event_round :: "string \<Rightarrow> jobs \<Rightarrow> nat \<Rightarrow> exn + frame list \<times> nat option" where
  "event_round job_id jobs cursor =
     (case jobs job_id of
        None \<Rightarrow> Inl (key_error job_id)
      | Some j \<Rightarrow>
          (case send_new_messages cursor (job_conversation j) of
             (frames, c) \<Rightarrow>
               (if job_status_field j \<noteq> ''running''
                then Inr (frames @ [CompleteFrame (job_status_field j) (job_output j)
                                      (job_cost_usd j) (job_error j)], None)
                else Inr (frames, Some c))))"

text \<open>
  \<^verbatim>\<open>_run_job.on_message\<close>: append to the job's conversation (a \<^verbatim>\<open>KeyError\<close> for an
  unknown id) and schedule the notification.
\<close>

definition on_message :: "string \<Rightarrow> jobs callback" where
  "on_message job_id msg jobs =
     (case jobs job_id of
        None \<Rightarrow> (Some (key_error job_id), jobs)
      | Some j \<Rightarrow> (None, jobs(job_id \<mapsto> j\<lparr>job_conversation := job_conversation j @ [msg]\<rparr>)))"

text \<open>
  \<^verbatim>\<open>_run_job\<close>, the background task of a job: the exception it dies with, if any, and
  the store it leaves.
\<close>

definition run_job ::
  "string \<Rightarrow> string \<Rightarrow> agent_query \<Rightarrow> string \<Rightarrow> string \<Rightarrow> jobs \<Rightarrow> exn option \<times> jobs" where
  "run_job wid system_prompt query job_id ep_url jobs =
     (case jobs job_id of
        None \<Rightarrow> (Some (key_error job_id), jobs)
      | Some _ \<Rightarrow>
          (case run_workflow wid system_prompt ep_url (Some (on_message job_id)) query jobs of
             (Inl e, jobs1) \<Rightarrow> (Some e, jobs1)
           | (Inr result, jobs1) \<Rightarrow>
               (case jobs1 job_id of
                  None \<Rightarrow> (Some (key_error job_id), jobs1)
                | Some j \<Rightarrow>
                    (if success result
                     then (None, jobs1(job_id \<mapsto>
                             j\<lparr>job_status_field := ''success'', job_output := r_output result,
                               job_cost_usd := r_cost_usd result\<rparr>))
                     else (None, jobs1(job_id \<mapsto>
                             j\<lparr>job_status_field := ''failed'', job_error := r_error result\<rparr>))))))"

text \<open>The entry point of the command-line variant, \<^verbatim>\<open>_prompt_ep_url\<close> of agent/main.py,
  on the line read from the terminal: \<^verbatim>\<open>sys.exit(1)\<close> is \<open>Inl 1\<close>.\<close>

definition prompt_ep_url :: "string \<Rightarrow> nat + string" where
  "prompt_ep_url line =
     (let url = strip line
      in if \<not> ep_url_pattern_match url then Inl 1 else Inr url)"

section \<open>Workflow state (agent/state.py, agent/config.py)\<close>

text \<open>
  A Python dict from labels to URLs is an association list in insertion order; the keys
  of a dict are distinct. \<open>dict_set\<close> is \<^verbatim>\<open>d[k] = v\<close> and \<open>dict_del\<close> is
  \<^verbatim>\<open>del d[k]\<close> for a key that is present.
\<close>

type_synonym dict = "(string \<times> string) list"

definition keys :: "dict \<Rightarrow> string list" where
  "keys d = map fst d"

definition dict_set :: "dict \<Rightarrow> string \<Rightarrow> string \<Rightarrow> dict" where
  "dict_set d k v =
     (if k \<in> set (keys d) then map (\<lambda>kv. if fst kv = k then (k, v) else kv) d
      else d @ [(k, v)])"

definition dict_del :: "dict \<Rightarrow> string \<Rightarrow> dict" where
  "dict_del d k = filter (\<lambda>kv. fst kv \<noteq> k) d"

record WorkflowState =
  ep_url :: string
  repo_short_name :: string
  repo_url :: string
  base_branch :: string
  repo_local_path :: string
  api_types_path :: string
  api_summary_md :: string
  pr_urls :: dict

definition POLL_INTERVAL_SECS :: int where
  "POLL_INTERVAL_SECS = 60"

definition MAX_CI_WAIT_MINS :: int where
  "MAX_CI_WAIT_MINS = 120"

section \<open>CI Watcher (agent/phase3.py)\<close>

text \<open>
  What \<^verbatim>\<open>gh pr view --json state,statusCheckRollup,mergeable,mergeStateStatus\<close> gives:
  a non-zero return code, an exception inside the \<^verbatim>\<open>try\<close> (the subprocess timing out,
  output that is not JSON, JSON of another shape), or the decoded object. A key that
  is absent is \<open>None\<close>, an absent \<^verbatim>\<open>statusCheckRollup\<close> the empty list.
\<close>

record check =
  chk_status :: "string option"
  chk_conclusion :: "string option"

record gh_data =
  gh_state :: "string option"
  statusCheckRollup :: "check list"
  gh_mergeable :: "string option"
  mergeStateStatus :: "string option"

datatype gh_outcome = Nonzero | Raised string | Data gh_data

text \<open>The dict that \<^verbatim>\<open>_check_pr_status\<close> returns; keys missing from it are \<open>None\<close>.\<close>

record pr_status =
  ps_state :: string
  checks_pass :: bool
  mergeable :: bool
  merge_state :: "string option"
  num_checks :: "nat option"
  pending :: "nat option"
  ps_error :: "string option"

definition completed :: "check \<Rightarrow> bool" where
  "completed c = (chk_status c = Some ''COMPLETED'')"

definition non_failing :: "check \<Rightarrow> bool" where
  "non_failing c = (chk_conclusion c \<in> {Some ''SUCCESS'', Some ''NEUTRAL'', Some ''SKIPPED''})"

text \<open>\<open>gh repo pr_number\<close> is the outcome of the subprocess for these arguments.\<close>

definition check_pr_status :: "(string \<Rightarrow> string \<Rightarrow> gh_outcome) \<Rightarrow> string \<Rightarrow> pr_status" where
  "check_pr_status gh pr_url =
     (case match_pr_url pr_url of
        None \<Rightarrow>
          \<lparr>ps_state = ''unknown'', checks_pass = False, mergeable = False, merge_state = None,
           num_checks = None, pending = None, ps_error = None\<rparr>
      | Some (repo, pr_number) \<Rightarrow>
          (case gh repo pr_number of
             Nonzero \<Rightarrow>
               \<lparr>ps_state = ''error'', checks_pass = False, mergeable = False,
                merge_state = None, num_checks = None, pending = None, ps_error = None\<rparr>
           | Raised e \<Rightarrow>
               \<lparr>ps_state = ''error'', checks_pass = False, mergeable = False,
                merge_state = None, num_checks = None, pending = None, ps_error = Some e\<rparr>
           | Data data \<Rightarrow>
               (let checks = statusCheckRollup data;
                    all_pass = list_all non_failing (filter completed checks);
                    all_complete = (length checks > 0 \<and> list_all completed checks)
                in \<lparr>ps_state = (case gh_state data of None \<Rightarrow> ''unknown'' | Some s \<Rightarrow> s),
                    checks_pass = (all_pass \<and> all_complete),
                    mergeable = (gh_mergeable data = Some ''MERGEABLE''),
                    merge_state = Some (case mergeStateStatus data of None \<Rightarrow> [] | Some m \<Rightarrow> m),
                    num_checks = Some (length checks),
                    pending = Some (length (filter (\<lambda>c. \<not> completed c) checks)),
                    ps_error = None\<rparr>)))"

text \<open>
  The world of the watcher: \<open>env_clock n\<close> is the value of the call number \<open>n\<close> of
  \<^verbatim>\<open>time.time()\<close> (seconds, a real number) and \<open>env_gh n\<close> the provider as it answers
  after \<open>n\<close> readings of the clock. The state of the loop holds the three dicts and
  what it has done so far: the number of clock readings, the provider queries issued
  and the intervals slept.
\<close>

record env =
  env_clock :: "nat \<Rightarrow> real"
  env_gh :: "nat \<Rightarrow> string \<Rightarrow> string \<Rightarrow> gh_outcome"

record watch =
  remaining :: dict
  passed :: dict
  failed :: dict
  reads :: nat
  queries :: "(string \<times> string) list"
  sleeps :: "int list"

text \<open>The three branches of the \<^verbatim>\<open>if\<close> in the loop body, in the order of the source.\<close>

datatype verdict = Passed | Closed | Waiting

definition classify :: "pr_status \<Rightarrow> verdict" where
  "classify status =
     (if checks_pass status then Passed
      else if ps_state status = ''CLOSED'' then Closed
      else Waiting)"

text \<open>
  The body of \<^verbatim>\<open>for label, url in list(remaining.items())\<close>: the status query, the
  clock reading for \<^verbatim>\<open>elapsed\<close>, and the move between the dicts. (The label of an item
  of the snapshot is still a key of \<^verbatim>\<open>remaining\<close>: only its own turn deletes it.)
\<close>

definition poll_pr :: "env \<Rightarrow> watch \<Rightarrow> string \<times> string \<Rightarrow> watch" where
  "poll_pr env st item =
     (case item of (label, url) \<Rightarrow>
        (let status = check_pr_status (env_gh env (reads st)) url;
             st1 = st\<lparr>reads := reads st + 1,
                      queries := queries st @
                        (case match_pr_url url of None \<Rightarrow> [] | Some q \<Rightarrow> [q])\<rparr>
         in case classify status of
              Passed \<Rightarrow> st1\<lparr>passed := dict_set (passed st1) label url,
                             remaining := dict_del (remaining st1) label\<rparr>
            | Closed \<Rightarrow> st1\<lparr>failed := dict_set (failed st1) label url,
                             remaining := dict_del (remaining st1) label\<rparr>
            | Waiting \<Rightarrow> st1))"

text \<open>
  \<^verbatim>\<open>while remaining and (time.time() - start) < wait * 60\<close>, with fuel for the number of
  rounds: \<open>None\<close> when the fuel runs out. The clock is read only when \<^verbatim>\<open>remaining\<close> is
  not empty.
\<close>

fun watch_loop :: "nat \<Rightarrow> env \<Rightarrow> real \<Rightarrow> int \<Rightarrow> int \<Rightarrow> watch \<Rightarrow> watch option" where
  "watch_loop 0 env start wait interval st = None"
| "watch_loop (Suc fuel) env start wait interval st =
     (if remaining st = [] then Some st
      else if env_clock env (reads st) - start < of_int (wait * 60)
      then (let st1 = foldl (poll_pr env) (st\<lparr>reads := reads st + 1\<rparr>) (remaining st);
                st2 = (if remaining st1 \<noteq> [] then st1\<lparr>sleeps := sleeps st1 @ [interval]\<rparr>
                       else st1)
            in watch_loop fuel env start wait interval st2)
      else Some (st\<lparr>reads := reads st + 1\<rparr>))"

text \<open>\<^verbatim>\<open>x or default\<close> on an optional integer: \<^verbatim>\<open>None\<close> and \<^verbatim>\<open>0\<close> are both false.\<close>

definition int_or :: "int option \<Rightarrow> int \<Rightarrow> int" where
  "int_or x d = (case x of None \<Rightarrow> d | Some v \<Rightarrow> if v = 0 then d else v)"

text \<open>
  What a run of the phase leaves: the final report (the three label lists of the
  console report and of the \<^verbatim>\<open>CI Status\<close> section of the summary file, \<open>None\<close> when
  the phase returned before it), the provider queries, the sleeps and the number of
  clock readings.
\<close>

record report =
  rep_passed :: "string list"
  rep_failed :: "string list"
  rep_timed_out :: "string list"

record phase3_result =
  final_report :: "report option"
  gh_calls :: "(string \<times> string) list"
  slept :: "int list"
  clock_reads :: nat

definition phase3_run ::
  "nat \<Rightarrow> env \<Rightarrow> WorkflowState \<Rightarrow> int option \<Rightarrow> int option \<Rightarrow> phase3_result option" where
  "phase3_run fuel env state max_wait_mins poll_secs =
     (if pr_urls state = []
      then Some \<lparr>final_report = None, gh_calls = [], slept = [], clock_reads = 0\<rparr>
      else (let wait = int_or max_wait_mins MAX_CI_WAIT_MINS;
                interval = int_or poll_secs POLL_INTERVAL_SECS;
                start = env_clock env 0;
                st0 = \<lparr>remaining = pr_urls state, passed = [], failed = [], reads = 1,
                       queries = [], sleeps = []\<rparr>
            in case watch_loop fuel env start wait interval st0 of
                 None \<Rightarrow> None
               | Some st \<Rightarrow>
                   Some \<lparr>final_report =
                           Some \<lparr>rep_passed = keys (passed st), rep_failed = keys (failed st),
                                 rep_timed_out = keys (remaining st)\<rparr>,
                         gh_calls = queries st, slept = sleeps st, clock_reads = reads st\<rparr>))"

section \<open>Scripted sessions (agent/utils.py)\<close>

text \<open>
  A session is a \<^verbatim>\<open>ClaudeSDKClient\<close> opened with its options. It is given by its
  answers: \<open>agent sent\<close> is what \<^verbatim>\<open>client.query\<close> followed by \<^verbatim>\<open>collect_response\<close>
  gives for the last prompt of \<open>sent\<close>, the prompts sent so far: the messages of the
  response, or an exception. The progress lines that \<^verbatim>\<open>collect_response\<close> prints and
  the summary files that the phases write are left out; they reach no later decision.
\<close>

type_synonym agent = "string list \<Rightarrow> exn + message list"

definition nl :: string where
  "nl = [CHR 0x0A]"

definition sq :: string where
  "sq = [CHR 0x27]"

fun text_blocks :: "block list \<Rightarrow> string list" where
  "text_blocks [] = []"
| "text_blocks (TextBlock t # bs) = t # text_blocks bs"
| "text_blocks (b # bs) = text_blocks bs"

fun message_texts :: "message \<Rightarrow> string list" where
  "message_texts (AssistantMessage content) = text_blocks content"
| "message_texts m = []"

definition extract_text :: "message list \<Rightarrow> string" where
  "extract_text messages = join_nl (concat (map message_texts messages))"

text \<open>The truth value of \<^verbatim>\<open>pr_url\<close> in \<^verbatim>\<open>if pr_url\<close>: neither \<^verbatim>\<open>None\<close> nor empty.\<close>

definition truthy :: "string option \<Rightarrow> bool" where
  "truthy v = (case v of None \<Rightarrow> False | Some u \<Rightarrow> u \<noteq> [])"

section \<open>Phase 1 (agent/phase1.py)\<close>

text \<open>
  What the phase finds on disk after \<^verbatim>\<open>/oape:init\<close>: whether the directory of the
  repository's short name exists in the working directory, and the paths of the
  children of the working directory that hold a \<^verbatim>\<open>.git\<close> directory, in the order of
  \<^verbatim>\<open>iterdir\<close>.
\<close>

record disk =
  cloned_dir_is_dir :: bool
  git_children :: "string list"

definition step2_prompt :: "WorkflowState \<Rightarrow> string" where
  "step2_prompt state =
     ''cd '' @ repo_local_path state @ '' && /oape:api-generate '' @ ep_url state"

definition step3_prompt :: string where
  "step3_prompt =
     ''Now run /oape:api-generate-tests on the API types directory you just '' @
     ''generated. Determine the correct path from the api-generate output above.''"

definition step4_prompt :: string where
  "step4_prompt =
     ''Now review the changes you'' @ sq @ ''ve made. Run `go build ./...` and `go vet ./...` '' @
     ''to check for compilation errors. Fix any issues found. '' @
     ''If `make generate` or `make manifests` targets exist, run them. '' @
     ''Ensure the code compiles cleanly.''"

text \<open>The dedented text of step 5, for a base branch without a line break.\<close>

definition step5_prompt :: "string \<Rightarrow> WorkflowState \<Rightarrow> string" where
  "step5_prompt branch_name state =
     ''Now commit all changes and raise a PR:'' @ nl @
     ''1. Create and checkout a new branch: '' @ branch_name @ nl @
     ''2. Stage all changed/new files (except .oape-work/)'' @ nl @
     ''3. Commit with a descriptive conventional commit message'' @ nl @
     ''4. Push the branch to origin'' @ nl @
     ''5. Create a PR against '' @ sq @ base_branch state @ sq @ '' using `gh pr create`'' @ nl @
     ''   with a clear title and body describing the API types from the EP.'' @ nl @
     ''6. Print the PR URL at the end.'' @ nl"

text \<open>
  \<^verbatim>\<open>phase1.run\<close>: \<open>cwd\<close> is \<^verbatim>\<open>Path.cwd()\<close> and \<open>stamp\<close> the text of
  \<^verbatim>\<open>int(time.time())\<close> at step 5. It returns the prompts sent to the session, or the
  exception of the turn that raised, and the workflow state as it has changed it.
\<close>

definition locate_repo :: "string \<Rightarrow> disk \<Rightarrow> WorkflowState \<Rightarrow> WorkflowState" where
  "locate_repo workdir d state =
     (if cloned_dir_is_dir d
      then state\<lparr>repo_local_path := workdir @ ''/'' @ repo_short_name state\<rparr>
      else (case git_children d of
              [] \<Rightarrow> state
            | child # _ \<Rightarrow> state\<lparr>repo_local_path := child\<rparr>))"

definition phase1_run ::
  "agent \<Rightarrow> string \<Rightarrow> disk \<Rightarrow> string \<Rightarrow> WorkflowState \<Rightarrow> (exn + string list) \<times> WorkflowState" where
  "phase1_run agent cwd d stamp state =
     (let workdir = cwd @ ''/.oape-work/phase1-api-types'';
          p1 = ''/oape:init '' @ repo_short_name state
      in case agent [p1] of
           Inl e \<Rightarrow> (Inl e, state)
         | Inr _ \<Rightarrow>
     (let state1 = locate_repo workdir d state;
          p2 = step2_prompt state1
      in case agent [p1, p2] of
           Inl e \<Rightarrow> (Inl e, state1)
         | Inr msgs2 \<Rightarrow>
     (case agent [p1, p2, step3_prompt] of
           Inl e \<Rightarrow> (Inl e, state1)
         | Inr msgs3 \<Rightarrow>
     (case agent [p1, p2, step3_prompt, step4_prompt] of
           Inl e \<Rightarrow> (Inl e, state1)
         | Inr _ \<Rightarrow>
     (let branch_name = ''oape/api-types-'' @ stamp;
          p5 = step5_prompt branch_name state1
      in case agent [p1, p2, step3_prompt, step4_prompt, p5] of
           Inl e \<Rightarrow> (Inl e, state1)
         | Inr msgs \<Rightarrow>
     (let pr_url = extract_pr_url (extract_text msgs);
          state2 = (if truthy pr_url
                    then state1\<lparr>pr_urls := dict_set (pr_urls state1) ''api-types'' (the pr_url)\<rparr>
                    else state1)
      in (Inr [p1, p2, step3_prompt, step4_prompt, p5],
          state2\<lparr>api_summary_md := workdir @ ''/api-types-summary.md''\<rparr>)))))))"

section \<open>Phase 2 (agent/phase2.py)\<close>

definition follow_up_prompt :: string where
  "follow_up_prompt =
     ''Please create the PR now if you haven'' @ sq @ ''t already. '' @
     ''Print the PR URL when done.''"

definition controller_prompt :: "string \<Rightarrow> WorkflowState \<Rightarrow> string" where
  "controller_prompt stamp state =
     ''/oape:api-implement '' @ ep_url state @ nl @ nl @
     ''After that completes, build, fix issues, commit to a new branch '' @
     sq @ ''oape/controller-impl-'' @ stamp @ sq @ '', push, and raise a PR against '' @
     sq @ base_branch state @ sq @ ''.''"

definition e2e_prompt :: "string \<Rightarrow> WorkflowState \<Rightarrow> string" where
  "e2e_prompt stamp state =
     ''/oape:e2e-generate '' @ base_branch state @ nl @ nl @
     ''After that completes, copy test files into the repo'' @ sq @ ''s test directory, '' @
     ''build, fix issues, commit to a new branch '' @
     sq @ ''oape/e2e-tests-'' @ stamp @ sq @ '', push, and '' @
     ''raise a PR against '' @ sq @ base_branch state @ sq @ ''.''"

text \<open>
  What a sub-agent leaves when it returns: the value returned (\<^verbatim>\<open>pr_url\<close>) and the
  prompts it has sent to its session.
\<close>

record sub_agent =
  returned :: "string option"
  prompts :: "string list"

text \<open>
  \<^verbatim>\<open>_run_controller\<close>: \<open>stamp\<close> is the text of \<^verbatim>\<open>int(time.time())\<close>. An exception of a
  turn leaves the function before \<^verbatim>\<open>state.pr_urls\<close> is written.
\<close>

definition run_controller ::
  "agent \<Rightarrow> string \<Rightarrow> WorkflowState \<Rightarrow> (exn + sub_agent) \<times> WorkflowState" where
  "run_controller agent stamp state =
     (let p = controller_prompt stamp state
      in case agent [p] of
           Inl e \<Rightarrow> (Inl e, state)
         | Inr msgs \<Rightarrow>
             (let pr_url = extract_pr_url (extract_text msgs)
              in if \<not> truthy pr_url
                 then (case agent [p, follow_up_prompt] of
                         Inl e \<Rightarrow> (Inl e, state)
                       | Inr msgs2 \<Rightarrow>
                           (let pr_url2 = extract_pr_url (extract_text msgs2)
                            in (Inr \<lparr>returned = pr_url2, prompts = [p, follow_up_prompt]\<rparr>,
                                if truthy pr_url2
                                then state\<lparr>pr_urls :=
                                       dict_set (pr_urls state) ''controller'' (the pr_url2)\<rparr>
                                else state)))
                 else (Inr \<lparr>returned = pr_url, prompts = [p]\<rparr>,
                       state\<lparr>pr_urls := dict_set (pr_urls state) ''controller'' (the pr_url)\<rparr>)))"

text \<open>\<^verbatim>\<open>_run_e2e_tests\<close>, of the same shape.\<close>

definition run_e2e_tests ::
  "agent \<Rightarrow> string \<Rightarrow> WorkflowState \<Rightarrow> (exn + sub_agent) \<times> WorkflowState" where
  "run_e2e_tests agent stamp state =
     (let p = e2e_prompt stamp state
      in case agent [p] of
           Inl e \<Rightarrow> (Inl e, state)
         | Inr msgs \<Rightarrow>
             (let pr_url = extract_pr_url (extract_text msgs)
              in if \<not> truthy pr_url
                 then (case agent [p, follow_up_prompt] of
                         Inl e \<Rightarrow> (Inl e, state)
                       | Inr msgs2 \<Rightarrow>
                           (let pr_url2 = extract_pr_url (extract_text msgs2)
                            in (Inr \<lparr>returned = pr_url2, prompts = [p, follow_up_prompt]\<rparr>,
                                if truthy pr_url2
                                then state\<lparr>pr_urls :=
                                       dict_set (pr_urls state) ''e2e-tests'' (the pr_url2)\<rparr>
                                else state)))
                 else (Inr \<lparr>returned = pr_url, prompts = [p]\<rparr>,
                       state\<lparr>pr_urls := dict_set (pr_urls state) ''e2e-tests'' (the pr_url)\<rparr>)))"

text \<open>
  The three branches of the report of \<^verbatim>\<open>phase2.run\<close> for one entry of the list that
  \<^verbatim>\<open>asyncio.gather(..., return_exceptions=True)\<close> returns: an exception, a value that
  is true, another value.
\<close>

definition report_line :: "string \<Rightarrow> exn + sub_agent \<Rightarrow> string" where
  "report_line label result =
     (case result of
        Inl e \<Rightarrow> ''  '' @ label @ '' sub-agent failed: '' @ (case e of Exception d \<Rightarrow> d | BaseException d \<Rightarrow> d)
      | Inr r \<Rightarrow>
          (if truthy (returned r) then ''  '' @ label @ '' PR: '' @ the (returned r)
           else ''  '' @ label @ '': no PR URL captured''))"

definition is_base :: "exn + sub_agent \<Rightarrow> bool" where
  "is_base result = (case result of Inl (BaseException d) \<Rightarrow> True | _ \<Rightarrow> False)"

text \<open>
  \<^verbatim>\<open>phase2.run\<close>. The two sub-agents run concurrently; each reads fields of the state
  that neither writes and writes its own key of \<^verbatim>\<open>state.pr_urls\<close> as its last step, so
  that a run is given by the order of these two writes: \<open>e2e_first\<close> says that the
  e2e sub-agent finishes first. \<^verbatim>\<open>gather\<close> waits for both and hands back an
  \<open>Exception\<close> of either as its result; a \<open>BaseException\<close> (\<^verbatim>\<open>KeyboardInterrupt\<close>,
  \<^verbatim>\<open>SystemExit\<close>) ends the run. The value is the list of the report lines.
\<close>

definition phase2_run ::
  "bool \<Rightarrow> agent \<Rightarrow> agent \<Rightarrow> string \<Rightarrow> string \<Rightarrow> WorkflowState \<Rightarrow>
   (exn + string list) \<times> WorkflowState" where
  "phase2_run e2e_first controller_agent e2e_agent stamp_a stamp_b state =
     (let (ra, rb, state') =
            (if e2e_first
             then (case run_e2e_tests e2e_agent stamp_b state of
                     (rb, s1) \<Rightarrow>
                       (case run_controller controller_agent stamp_a s1 of
                          (ra, s2) \<Rightarrow> (ra, rb, s2)))
             else (case run_controller controller_agent stamp_a state of
                     (ra, s1) \<Rightarrow>
                       (case run_e2e_tests e2e_agent stamp_b s1 of
                          (rb, s2) \<Rightarrow> (ra, rb, s2))))
      in if is_base ra then (Inl (case ra of Inl e \<Rightarrow> e), state')
         else if is_base rb then (Inl (case rb of Inl e \<Rightarrow> e), state')
         else (Inr [report_line ''Controller'' ra, report_line ''E2E Tests'' rb], state'))"

section \<open>The whole run (agent/main.py)\<close>

text \<open>
  \<^verbatim>\<open>run_workflow\<close> of agent/main.py: \<open>line\<close> is the line typed at the prompt and \<open>repo\<close>
  what \<^verbatim>\<open>resolve_repo\<close> gives from the registry and the user's choice (short name, URL
  and base branch, or \<open>None\<close> when it exits). The run ends with \<^verbatim>\<open>sys.exit\<close>, with an
  exception that no phase has caught, or after phase 3, with the report lines of
  phase 2 and the result of the watcher.
\<close>

datatype run_end =
    Exit nat
  | Uncaught exn
  | Completed "string list" "phase3_result option"

definition main_run_workflow ::
  "string \<Rightarrow> (string \<times> string \<times> string) option \<Rightarrow> agent \<Rightarrow> string \<Rightarrow> disk \<Rightarrow> string \<Rightarrow>
   bool \<Rightarrow> agent \<Rightarrow> agent \<Rightarrow> string \<Rightarrow> string \<Rightarrow> nat \<Rightarrow> env \<Rightarrow> run_end" where
  "main_run_workflow line repo agent1 cwd d stamp1 e2e_first controller_agent e2e_agent
     stamp_a stamp_b fuel env =
     (case prompt_ep_url line of
        Inl code \<Rightarrow> Exit code
      | Inr url \<Rightarrow>
     (case repo of
        None \<Rightarrow> Exit 1
      | Some (repo_short, repo_url', base_branch') \<Rightarrow>
     (let state = \<lparr>ep_url = url, repo_short_name = repo_short, repo_url = repo_url',
                   base_branch = base_branch', repo_local_path = [], api_types_path = [],
                   api_summary_md = [], pr_urls = []\<rparr>
      in case phase1_run agent1 cwd d stamp1 state of
           (Inl e, _) \<Rightarrow> Uncaught e
         | (Inr _, state1) \<Rightarrow>
             (if repo_local_path state1 = [] then Exit 1
              else (case phase2_run e2e_first controller_agent e2e_agent stamp_a stamp_b state1 of
                      (Inl e, _) \<Rightarrow> Uncaught e
                    | (Inr report_lines, state2) \<Rightarrow>
                        Completed report_lines (phase3_run fuel env state2 None None))))))"

section \<open>Properties of the job store and the event stream\<close>

lemma send_new_messages_eq:
  "send_new_messages k c = (map MessageFrame (drop k c), max k (length c))"
proof (induction k c rule: send_new_messages.induct)
  case (1 cursor conversation)
  show ?case
  proof (cases "cursor < length conversation")
    case True
    then show ?thesis
      using 1 by (subst send_new_messages.simps) (simp add: Cons_nth_drop_Suc [symmetric] max_def)
  next
    case False
    then show ?thesis by (subst send_new_messages.simps) simp
  qed
qed

lemma on_message_present:
  "jobs job_id = Some j \<Longrightarrow>
   on_message job_id e jobs =
     (None, jobs(job_id \<mapsto> j\<lparr>job_conversation := job_conversation j @ [e]\<rparr>))"
  by (simp add: on_message_def)

lemma append_all:
  "jobs job_id = Some j \<Longrightarrow>
   foldl (\<lambda>js e. snd (on_message job_id e js)) jobs events job_id =
     Some (j\<lparr>job_conversation := job_conversation j @ events\<rparr>)"
proof (induction events arbitrary: jobs j)
  case Nil
  then show ?case by simp
next
  case (Cons e es)
  have "(snd (on_message job_id e jobs)) job_id =
          Some (j\<lparr>job_conversation := job_conversation j @ [e]\<rparr>)"
    using Cons.prems by (simp add: on_message_present)
  then have "foldl (\<lambda>js e. snd (on_message job_id e js)) (snd (on_message job_id e jobs)) es job_id =
     Some (j\<lparr>job_conversation := job_conversation j @ [e]\<rparr>
            \<lparr>job_conversation :=
               job_conversation (j\<lparr>job_conversation := job_conversation j @ [e]\<rparr>) @ es\<rparr>)"
    by (rule Cons.IH)
  then show ?case by simp
qed

text \<open>
  C1. A job whose log is empty receives the events \<open>events\<close> through the callback
  \<open>on_message\<close>, one call for each. The log is then \<open>events\<close>; the stream loop started
  at cursor 0 yields one frame for each event, in the order of the calls, and started
  at a cursor \<open>k \<le> length events\<close> it yields the frames of \<open>drop k events\<close>; both leave
  the cursor at the length of the log.
\<close>

theorem read_since_suffix:
  assumes "jobs job_id = Some j" and "job_conversation j = []" and "k \<le> length events"
  shows "\<exists>j'. foldl (\<lambda>js e. snd (on_message job_id e js)) jobs events job_id = Some j' \<and>
           job_conversation j' = events \<and>
           send_new_messages 0 (job_conversation j') = (map MessageFrame events, length events) \<and>
           send_new_messages k (job_conversation j') =
             (map MessageFrame (drop k events), length events)"
  using assms by (simp add: append_all send_new_messages_eq max_def)

theorem read_since_suffix_witness:
  "send_new_messages 1
     (job_conversation (the (foldl (\<lambda>js e. snd (on_message ''j1'' e js))
        [''j1'' \<mapsto> new_job ''u''] [AssistantText ''a'', AssistantThinking ''b''] ''j1''))) =
   ([MessageFrame (AssistantThinking ''b'')], 2)"
  using read_since_suffix [of "[''j1'' \<mapsto> new_job ''u'']" "''j1''" "new_job ''u''" 1
      "[AssistantText ''a'', AssistantThinking ''b'']"]
  by (auto simp: new_job_def)

text \<open>
  C9. \<^verbatim>\<open>submit_job\<close> accepts \<^verbatim>\<open>https://github.com/openshift/enhancements/pull/123\<close> and
  stores a new job for it; for \<^verbatim>\<open>.../pull/abc\<close> and \<^verbatim>\<open>https://example.com/pull/1\<close> it
  answers with the HTTP error 400 and leaves the store as it was. The prompt of the
  command-line variant accepts the first and exits on the other two.
\<close>

theorem submission_examples:
  "submit_job job_id ''https://github.com/openshift/enhancements/pull/123'' jobs =
     (Inr job_id, jobs(job_id \<mapsto> new_job ''https://github.com/openshift/enhancements/pull/123''))
   \<and> (\<exists>detail. submit_job job_id ''https://github.com/openshift/enhancements/pull/abc'' jobs =
         (Inl (HTTPException 400 detail), jobs))
   \<and> (\<exists>detail. submit_job job_id ''https://example.com/pull/1'' jobs =
         (Inl (HTTPException 400 detail), jobs))
   \<and> prompt_ep_url ''https://github.com/openshift/enhancements/pull/123'' =
       Inr ''https://github.com/openshift/enhancements/pull/123''
   \<and> prompt_ep_url ''https://github.com/openshift/enhancements/pull/abc'' = Inl 1
   \<and> prompt_ep_url ''https://example.com/pull/1'' = Inl 1"
  by (simp add: submit_job_def validate_ep_url_def ep_url_pattern_match_def rstrip_slash_def
        is_digit_def prompt_ep_url_def strip_def is_space_def)

section \<open>Properties of the Session Runner\<close>











lemma run_agent_raises_only_base:
  "run_agent prompt working_dir system_prompt cb query w = (Inl e, w') \<Longrightarrow>
   \<exists>d l. e = BaseException d \<and>
     consume cb (query prompt working_dir system_prompt) (locals0, w) = (Some e, l, w')"
  by (auto simp: run_agent_def except_clause_def format_none_error_def
           split: prod.splits option.splits exn.splits if_splits)

section \<open>Properties of a failed job\<close>

text \<open>
  The job \<open>job_id\<close> of the store is \<open>j0\<close> with the conversation of the local variables
  appended to its log.
\<close>

definition tracks :: "string \<Rightarrow> job \<Rightarrow> locals \<times> jobs \<Rightarrow> bool" where
  "tracks job_id j0 s =
     (case s of (l, jobs) \<Rightarrow>
        jobs job_id = Some (j0\<lparr>job_conversation := job_conversation j0 @ conv l\<rparr>))"

lemma emit_tracks:
  "tracks job_id j0 s \<Longrightarrow> emit (Some (on_message job_id)) e s = (r, s') \<Longrightarrow>
   r = None \<and> tracks job_id j0 s'"
  by (cases s) (auto simp: tracks_def emit_def on_message_def Let_def)

lemma append_part_tracks:
  "tracks job_id j0 s \<Longrightarrow> tracks job_id j0 (append_part t s)"
  by (cases s) (auto simp: tracks_def append_part_def)

lemma handle_block_tracks:
  "tracks job_id j0 s \<Longrightarrow> handle_block (Some (on_message job_id)) b s = (r, s') \<Longrightarrow>
   r = None \<and> tracks job_id j0 s'"
proof (cases b)
  case (TextBlock t)
  assume t: "tracks job_id j0 s" and h: "handle_block (Some (on_message job_id)) b s = (r, s')"
  from t have "tracks job_id j0 (append_part t s)" for t by (rule append_part_tracks)
  then show ?thesis using h TextBlock emit_tracks by fastforce
qed (auto dest: emit_tracks)

lemma handle_blocks_tracks:
  "tracks job_id j0 s \<Longrightarrow> handle_blocks (Some (on_message job_id)) bs s = (r, s') \<Longrightarrow>
   r = None \<and> tracks job_id j0 s'"
proof (induction bs arbitrary: s)
  case Nil
  then show ?case by simp
next
  case (Cons b bs)
  obtain r1 s1 where h: "handle_block (Some (on_message job_id)) b s = (r1, s1)"
    by (cases "handle_block (Some (on_message job_id)) b s") auto
  from handle_block_tracks [OF Cons.prems(1) h] have r1: "r1 = None" and t1: "tracks job_id j0 s1"
    by auto
  from Cons.prems(2) h r1 have "handle_blocks (Some (on_message job_id)) bs s1 = (r, s')"
    by simp
  from Cons.IH [OF t1 this] show ?case .
qed

lemma handle_message_tracks:
  "tracks job_id j0 s \<Longrightarrow> handle_message (Some (on_message job_id)) m s = (r, s') \<Longrightarrow>
   tracks job_id j0 s'"
proof (cases m)
  case (AssistantMessage bs)
  assume "tracks job_id j0 s" "handle_message (Some (on_message job_id)) m s = (r, s')"
  then show ?thesis using AssistantMessage by (auto dest: handle_blocks_tracks)
next
  case (ResultMessage c res)
  assume t: "tracks job_id j0 s" and h: "handle_message (Some (on_message job_id)) m s = (r, s')"
  obtain l w where s: "s = (l, w)" by (cases s)
  define s2 where "s2 = (case res of None \<Rightarrow> (l\<lparr>cost := c\<rparr>, w)
                   | Some r \<Rightarrow> if r \<noteq> [] then append_part r (l\<lparr>cost := c\<rparr>, w)
                               else (l\<lparr>cost := c\<rparr>, w))"
  have t1: "tracks job_id j0 (l\<lparr>cost := c\<rparr>, w)" using t s by (simp add: tracks_def)
  have t2: "tracks job_id j0 s2"
    unfolding s2_def using t1 by (auto split: option.splits simp: append_part_tracks)
  obtain r3 s3 where e: "emit (Some (on_message job_id)) (ResultEntry res c) s2 = (r3, s3)"
    by (cases "emit (Some (on_message job_id)) (ResultEntry res c) s2") auto
  from emit_tracks [OF t2 e] have "r3 = None" "tracks job_id j0 s3" by auto
  moreover have "s' = s3"
    using h e \<open>r3 = None\<close> unfolding ResultMessage s by (simp add: s2_def Let_def split: if_splits)
  ultimately show ?thesis by simp
next
  case (OtherMessage n d)
  assume "tracks job_id j0 s" "handle_message (Some (on_message job_id)) m s = (r, s')"
  then show ?thesis using OtherMessage by (auto dest: emit_tracks)
qed

lemma consume_tracks:
  "tracks job_id j0 s \<Longrightarrow> consume (Some (on_message job_id)) stream s = (r, s') \<Longrightarrow>
   tracks job_id j0 s'"
proof (induction stream arbitrary: s)
  case Nil
  then show ?case by simp
next
  case (Cons item rest)
  show ?case
  proof (cases item)
    case (Raise e)
    with Cons.prems show ?thesis by simp
  next
    case (Yield m)
    obtain r1 s1 where h: "handle_message (Some (on_message job_id)) m s = (r1, s1)"
      by (cases "handle_message (Some (on_message job_id)) m s") auto
    from handle_message_tracks [OF Cons.prems(1) h] have t1: "tracks job_id j0 s1" .
    show ?thesis
    proof (cases r1)
      case None
      with Cons.prems(2) h Yield have "consume (Some (on_message job_id)) rest s1 = (r, s')"
        by simp
      from Cons.IH [OF t1 this] show ?thesis .
    next
      case (Some e)
      with Cons.prems(2) h Yield have "s' = s1" by simp
      with t1 show ?thesis by simp
    qed
  qed
qed

lemma run_agent_tracks:
  assumes "jobs job_id = Some j0"
      and "run_agent p wd sp (Some (on_message job_id)) query jobs = (Inr result, jobs1)"
  shows "jobs1 job_id =
           Some (j0\<lparr>job_conversation := job_conversation j0 @ r_conversation result\<rparr>)"
proof -
  obtain r l w where
    c: "consume (Some (on_message job_id)) (query p wd sp) (locals0, jobs) = (r, l, w)"
    by (cases "consume (Some (on_message job_id)) (query p wd sp) (locals0, jobs)") auto
  have "tracks job_id j0 (locals0, jobs)" using assms(1) by (simp add: tracks_def locals0_def)
  from consume_tracks [OF this c]
  have t: "w job_id = Some (j0\<lparr>job_conversation := job_conversation j0 @ conv l\<rparr>)"
    by (simp add: tracks_def)
  have "jobs1 = w \<and> r_conversation result = conv l"
    using assms(2) c
    by (auto simp: run_agent_def except_clause_def failed_result_def format_none_error_def
             split: option.splits exn.splits if_splits)
  with t show ?thesis by simp
qed

lemma run_agent_failed_output:
  "run_agent p wd sp f query w = (Inr result, w') \<Longrightarrow> \<not> success result \<Longrightarrow> r_output result = []"
  by (auto simp: run_agent_def except_clause_def failed_result_def format_none_error_def
        success_def split: prod.splits option.splits exn.splits if_splits)

text \<open>
  C7, as the code has it. When the workflow of a job ends with a failed result, the
  background task changes two fields of the job, the status (to \<^verbatim>\<open>failed\<close>) and the
  error: the log is the log of before the run followed by every event of the run, and
  the output and the cost are those of before the run. The status query answers with
  that output and the length of that log, and the stream replays the log before its
  \<^verbatim>\<open>complete\<close> frame. The failed result itself carries the empty output: the text
  accrued in \<^verbatim>\<open>output_parts\<close> is kept in no field.
\<close>

theorem failed_job_keeps_log:
  assumes "jobs job_id = Some j0"
      and "run_workflow wid sp url (Some (on_message job_id)) query jobs = (Inr result, jobs1)"
      and "\<not> success result"
  shows "run_job wid sp query job_id url jobs =
           (None, jobs1(job_id \<mapsto>
              j0\<lparr>job_conversation := job_conversation j0 @ r_conversation result,
                 job_status_field := ''failed'', job_error := r_error result\<rparr>)) \<and>
         job_status job_id (snd (run_job wid sp query job_id url jobs)) =
           Inr \<lparr>st_status = ''failed'', st_ep_url = job_ep_url j0, st_output = job_output j0,
                st_cost_usd = job_cost_usd j0, st_error = r_error result,
                st_message_count = length (job_conversation j0) + length (r_conversation result)\<rparr> \<and>
         event_round job_id (snd (run_job wid sp query job_id url jobs)) 0 =
           Inr (map MessageFrame (job_conversation j0 @ r_conversation result) @
                  [CompleteFrame ''failed'' (job_output j0) (job_cost_usd j0) (r_error result)],
                None) \<and>
         r_output result = []"
proof -
  from assms(2) have ra: "run_agent
       (''Execute the full OAPE feature development workflow for this '' @
        ''Enhancement Proposal: '' @ url)
       (''/tmp/oape-'' @ wid) sp (Some (on_message job_id)) query jobs = (Inr result, jobs1)"
    by (simp add: run_workflow_def)
  from run_agent_tracks [OF assms(1) ra]
  have j1: "jobs1 job_id =
              Some (j0\<lparr>job_conversation := job_conversation j0 @ r_conversation result\<rparr>)" .
  have rj: "run_job wid sp query job_id url jobs =
           (None, jobs1(job_id \<mapsto>
              j0\<lparr>job_conversation := job_conversation j0 @ r_conversation result,
                 job_status_field := ''failed'', job_error := r_error result\<rparr>))"
    using assms j1 by (simp add: run_job_def)
  have out: "r_output result = []"
    using run_agent_failed_output [OF ra assms(3)] .
  show ?thesis
    unfolding rj using out
    by (simp add: job_status_def event_round_def send_new_messages_eq)
qed

theorem failed_job_keeps_log_witness:
  "job_status ''j1''
     (snd (run_job ''w'' ''s''
        (\<lambda>p d s. [Yield (AssistantMessage [TextBlock ''partial'']), Raise (Exception ''boom'')])
        ''j1'' ''u'' [''j1'' \<mapsto> new_job ''u''])) =
   Inr \<lparr>st_status = ''failed'', st_ep_url = ''u'', st_output = [], st_cost_usd = Some 0,
        st_error = Some ''boom'', st_message_count = 1\<rparr>"
proof -
  let ?q = "\<lambda>p d s. [Yield (AssistantMessage [TextBlock ''partial'']), Raise (Exception ''boom'')]"
  let ?jobs = "[''j1'' \<mapsto> new_job ''u'']"
  let ?r = "\<lparr>r_output = [], r_cost_usd = Some 0, r_error = Some ''boom'',
             r_conversation = [AssistantText ''partial'']\<rparr>"
  have a: "?jobs ''j1'' = Some (new_job ''u'')" by simp
  have b: "run_workflow ''w'' ''s'' ''u'' (Some (on_message ''j1'')) ?q ?jobs =
             (Inr ?r, ?jobs(''j1'' \<mapsto> (new_job ''u'')\<lparr>job_conversation := [AssistantText ''partial'']\<rparr>))"
    by (simp add: run_workflow_def run_agent_def locals0_def emit_def append_part_def
          on_message_def except_clause_def failed_result_def new_job_def)
  have c: "\<not> success ?r" by (simp add: success_def)
  from failed_job_keeps_log [OF a b c]
  have "job_status ''j1'' (snd (run_job ''w'' ''s'' ?q ''j1'' ''u'' ?jobs)) =
          Inr \<lparr>st_status = ''failed'', st_ep_url = job_ep_url (new_job ''u''),
               st_output = job_output (new_job ''u''),
               st_cost_usd = job_cost_usd (new_job ''u''), st_error = r_error ?r,
               st_message_count =
                 length (job_conversation (new_job ''u'')) + length (r_conversation ?r)\<rparr>"
    by (rule conjunct1 [OF conjunct2])
  then show ?thesis by (simp add: new_job_def)
qed

text \<open>
  C7, as it is stated, fails: a session that has produced the text \<^verbatim>\<open>partial\<close> and then
  raises leaves that text in \<^verbatim>\<open>output_parts\<close>, and the status query of the failed job
  answers with the empty output.
\<close>

theorem partial_output_not_in_status:
  "output_parts (fst (snd (consume (Some (on_message ''j1''))
      [Yield (AssistantMessage [TextBlock ''partial'']), Raise (Exception ''boom'')]
      (locals0, [''j1'' \<mapsto> new_job ''u''])))) = [''partial''] \<and>
   job_status ''j1''
     (snd (run_job ''w'' ''s''
        (\<lambda>p d s. [Yield (AssistantMessage [TextBlock ''partial'']), Raise (Exception ''boom'')])
        ''j1'' ''u'' [''j1'' \<mapsto> new_job ''u''])) =
   Inr \<lparr>st_status = ''failed'', st_ep_url = ''u'', st_output = [], st_cost_usd = Some 0,
        st_error = Some ''boom'', st_message_count = 1\<rparr>"
  by (simp add: run_job_def run_workflow_def run_agent_def locals0_def emit_def append_part_def
        on_message_def except_clause_def failed_result_def new_job_def job_status_def
        success_def)

section \<open>Properties of the CI Watcher\<close>

text \<open>
  The condition of the specification for \<^verbatim>\<open>passed\<close>, in its words: at least one check
  exists, every check has status \<^verbatim>\<open>COMPLETED\<close>, and every check's conclusion is
  \<^verbatim>\<open>SUCCESS\<close>, \<^verbatim>\<open>NEUTRAL\<close> or \<^verbatim>\<open>SKIPPED\<close>.
\<close>

definition spec_passed :: "check list \<Rightarrow> bool" where
  "spec_passed checks =
     (checks \<noteq> [] \<and>
      (\<forall>c \<in> set checks.
         chk_status c = Some ''COMPLETED'' \<and>
         (chk_conclusion c = Some ''SUCCESS'' \<or> chk_conclusion c = Some ''NEUTRAL'' \<or>
          chk_conclusion c = Some ''SKIPPED'')))"

lemma all_pass_and_complete:
  "(list_all non_failing (filter completed checks) \<and> 0 < length checks \<and>
    list_all completed checks) = spec_passed checks"
  by (auto simp: spec_passed_def list_all_iff completed_def non_failing_def)

lemma checks_pass_data:
  "match_pr_url url = Some (repo, num) \<Longrightarrow> gh repo num = Data d \<Longrightarrow>
   checks_pass (check_pr_status gh url) = spec_passed (statusCheckRollup d)"
  using all_pass_and_complete [of "statusCheckRollup d"]
  by (simp add: check_pr_status_def Let_def)

lemma state_data:
  "match_pr_url url = Some (repo, num) \<Longrightarrow> gh repo num = Data d \<Longrightarrow>
   ps_state (check_pr_status gh url) = (case gh_state d of None \<Rightarrow> ''unknown'' | Some s \<Rightarrow> s)"
  by (simp add: check_pr_status_def Let_def)

lemma checks_pass_iff:
  "match_pr_url url = Some (repo, num) \<Longrightarrow>
   checks_pass (check_pr_status gh url) =
     (\<exists>d. gh repo num = Data d \<and> spec_passed (statusCheckRollup d))"
  using all_pass_and_complete
  by (cases "gh repo num") (auto simp: check_pr_status_def Let_def)

lemma no_match_waiting:
  "match_pr_url url = None \<Longrightarrow> classify (check_pr_status gh url) = Waiting"
  by (simp add: check_pr_status_def classify_def)

lemma keys_dict_set_list:
  "keys (dict_set d k v) = (if k \<in> set (keys d) then keys d else keys d @ [k])"
proof -
  have "(\<lambda>kv. fst (if fst kv = k then (k, v) else kv)) = fst" by auto
  then show ?thesis by (simp add: dict_set_def keys_def o_def)
qed

lemma keys_dict_set: "set (keys (dict_set d k v)) = insert k (set (keys d))"
  by (auto simp: keys_dict_set_list)

lemma keys_dict_del: "set (keys (dict_del d k)) = set (keys d) - {k}"
  by (auto simp: dict_del_def keys_def)

lemma distinct_dict_del: "distinct (keys d) \<Longrightarrow> distinct (keys (dict_del d k))"
  by (simp add: dict_del_def keys_def distinct_map_filter)

lemma poll_pr_fields:
  "poll_pr env st (label, url) =
     (let v = classify (check_pr_status (env_gh env (reads st)) url)
      in \<lparr>remaining = (if v = Waiting then remaining st else dict_del (remaining st) label),
          passed = (if v = Passed then dict_set (passed st) label url else passed st),
          failed = (if v = Closed then dict_set (failed st) label url else failed st),
          reads = reads st + 1,
          queries = queries st @ (case match_pr_url url of None \<Rightarrow> [] | Some q \<Rightarrow> [q]),
          sleeps = sleeps st\<rparr>)"
  by (cases "classify (check_pr_status (env_gh env (reads st)) url)")
     (simp_all add: poll_pr_def Let_def)

text \<open>
  C5. In a round of the loop, a reference whose URL has the form that
  \<^verbatim>\<open>_check_pr_status\<close> expects, and that is not yet among the passed ones, becomes
  \<^verbatim>\<open>passed\<close> if and only if the provider answers with data whose list of checks is not
  empty, has only checks of status \<^verbatim>\<open>COMPLETED\<close>, and only conclusions \<^verbatim>\<open>SUCCESS\<close>,
  \<^verbatim>\<open>NEUTRAL\<close> or \<^verbatim>\<open>SKIPPED\<close>. With no check the verdict is not \<^verbatim>\<open>passed\<close>; with the
  two checks COMPLETED/SUCCESS and COMPLETED/NEUTRAL it is.
\<close>

theorem passed_iff_all_checks_green:
  assumes "match_pr_url url = Some (repo, num)" and "label \<notin> set (keys (passed st))"
  shows "(label \<in> set (keys (passed (poll_pr env st (label, url))))) =
           (\<exists>d. env_gh env (reads st) repo num = Data d \<and> spec_passed (statusCheckRollup d)) \<and>
         (classify (check_pr_status gh url) = Passed) =
           (\<exists>d. gh repo num = Data d \<and> spec_passed (statusCheckRollup d)) \<and>
         (\<forall>d. gh repo num = Data d \<and> statusCheckRollup d = [] \<longrightarrow>
              classify (check_pr_status gh url) \<noteq> Passed) \<and>
         (\<forall>d. gh repo num = Data d \<and>
              statusCheckRollup d =
                [\<lparr>chk_status = Some ''COMPLETED'', chk_conclusion = Some ''SUCCESS''\<rparr>,
                 \<lparr>chk_status = Some ''COMPLETED'', chk_conclusion = Some ''NEUTRAL''\<rparr>] \<longrightarrow>
              classify (check_pr_status gh url) = Passed)"
proof -
  have c: "(classify (check_pr_status g url) = Passed) =
             (\<exists>d. g repo num = Data d \<and> spec_passed (statusCheckRollup d))" for g
    using checks_pass_iff [OF assms(1), of g] by (simp add: classify_def)
  have p: "(label \<in> set (keys (passed (poll_pr env st (label, url))))) =
             (classify (check_pr_status (env_gh env (reads st)) url) = Passed)"
    using assms(2) by (simp add: poll_pr_fields Let_def keys_dict_set)
  have z: "\<not> spec_passed []" by (simp add: spec_passed_def)
  have t: "spec_passed [\<lparr>chk_status = Some ''COMPLETED'', chk_conclusion = Some ''SUCCESS''\<rparr>,
                 \<lparr>chk_status = Some ''COMPLETED'', chk_conclusion = Some ''NEUTRAL''\<rparr>]"
    by (simp add: spec_passed_def)
  show ?thesis
    unfolding p c using z t by auto
qed

theorem passed_iff_all_checks_green_witness:
  "''api-types'' \<in> set (keys (passed (poll_pr
      \<lparr>env_clock = (\<lambda>n. 0),
       env_gh = (\<lambda>n repo num. Data \<lparr>gh_state = Some ''OPEN'',
          statusCheckRollup =
            [\<lparr>chk_status = Some ''COMPLETED'', chk_conclusion = Some ''SUCCESS''\<rparr>,
             \<lparr>chk_status = Some ''COMPLETED'', chk_conclusion = Some ''NEUTRAL''\<rparr>],
          gh_mergeable = None, mergeStateStatus = None\<rparr>)\<rparr>
      \<lparr>remaining = [(''api-types'', ''https://github.com/o/r/pull/7'')], passed = [],
       failed = [], reads = 1, queries = [], sleeps = []\<rparr>
      (''api-types'', ''https://github.com/o/r/pull/7''))))"
proof -
  have m: "match_pr_url ''https://github.com/o/r/pull/7'' = Some (''o/r'', ''7'')"
    by (simp add: match_pr_url_def not_slash_def is_digit_def)
  have n: "''api-types'' \<notin> set (keys (passed
      \<lparr>remaining = [(''api-types'', ''https://github.com/o/r/pull/7'')], passed = [],
       failed = [], reads = 1, queries = [], sleeps = []\<rparr>))"
    by (simp add: keys_def)
  show ?thesis
    using passed_iff_all_checks_green [OF m n, THEN conjunct1]
    by (simp add: spec_passed_def)
qed

text \<open>
  C4, as it is stated, fails: a reference that the provider reports as \<^verbatim>\<open>CLOSED\<close> with
  one check COMPLETED/SUCCESS is moved to the passed ones, not to the closed ones.
\<close>

theorem closed_with_green_checks_is_passed:
  "classify (check_pr_status
      (\<lambda>repo num. Data \<lparr>gh_state = Some ''CLOSED'',
          statusCheckRollup = [\<lparr>chk_status = Some ''COMPLETED'', chk_conclusion = Some ''SUCCESS''\<rparr>],
          gh_mergeable = None, mergeStateStatus = None\<rparr>)
      ''https://github.com/o/r/pull/7'') = Passed \<and>
   poll_pr
      \<lparr>env_clock = (\<lambda>n. 0),
       env_gh = (\<lambda>n repo num. Data \<lparr>gh_state = Some ''CLOSED'',
          statusCheckRollup = [\<lparr>chk_status = Some ''COMPLETED'', chk_conclusion = Some ''SUCCESS''\<rparr>],
          gh_mergeable = None, mergeStateStatus = None\<rparr>)\<rparr>
      \<lparr>remaining = [(''api-types'', ''https://github.com/o/r/pull/7'')], passed = [],
       failed = [], reads = 1, queries = [], sleeps = []\<rparr>
      (''api-types'', ''https://github.com/o/r/pull/7'') =
   \<lparr>remaining = [], passed = [(''api-types'', ''https://github.com/o/r/pull/7'')],
    failed = [], reads = 2, queries = [(''o/r'', ''7'')], sleeps = []\<rparr>"
  by (simp add: poll_pr_def classify_def check_pr_status_def match_pr_url_def not_slash_def
        is_digit_def completed_def non_failing_def dict_set_def dict_del_def keys_def)

text \<open>
  C4, as the code has it. When the provider reports the state \<^verbatim>\<open>CLOSED\<close>, the round
  classifies the reference as closed (it moves it from the remaining ones to the
  closed ones) unless its checks pass, that is unless it has at least one check and
  all its checks are completed with a conclusion \<^verbatim>\<open>SUCCESS\<close>, \<^verbatim>\<open>NEUTRAL\<close> or
  \<^verbatim>\<open>SKIPPED\<close>; in that case the reference is classified as passed.
\<close>

theorem closed_unless_checks_pass:
  assumes "match_pr_url url = Some (repo, num)"
      and "env_gh env (reads st) repo num = Data d"
      and "gh_state d = Some ''CLOSED''"
  shows "classify (check_pr_status (env_gh env (reads st)) url) =
           (if spec_passed (statusCheckRollup d) then Passed else Closed) \<and>
         (\<not> spec_passed (statusCheckRollup d) \<longrightarrow>
            failed (poll_pr env st (label, url)) = dict_set (failed st) label url \<and>
            remaining (poll_pr env st (label, url)) = dict_del (remaining st) label \<and>
            passed (poll_pr env st (label, url)) = passed st) \<and>
         (spec_passed (statusCheckRollup d) \<longrightarrow>
            passed (poll_pr env st (label, url)) = dict_set (passed st) label url \<and>
            remaining (poll_pr env st (label, url)) = dict_del (remaining st) label \<and>
            failed (poll_pr env st (label, url)) = failed st)"
proof -
  have "classify (check_pr_status (env_gh env (reads st)) url) =
           (if spec_passed (statusCheckRollup d) then Passed else Closed)"
    using checks_pass_data [of url repo num "env_gh env (reads st)" d]
      state_data [of url repo num "env_gh env (reads st)" d] assms
    by (simp add: classify_def)
  then show ?thesis by (simp add: poll_pr_fields Let_def)
qed

theorem closed_unless_checks_pass_witness:
  "failed (poll_pr
      \<lparr>env_clock = (\<lambda>n. 0),
       env_gh = (\<lambda>n repo num. Data \<lparr>gh_state = Some ''CLOSED'',
          statusCheckRollup = [\<lparr>chk_status = Some ''COMPLETED'', chk_conclusion = Some ''FAILURE''\<rparr>],
          gh_mergeable = None, mergeStateStatus = None\<rparr>)\<rparr>
      \<lparr>remaining = [(''api-types'', ''https://github.com/o/r/pull/7'')], passed = [],
       failed = [], reads = 1, queries = [], sleeps = []\<rparr>
      (''api-types'', ''https://github.com/o/r/pull/7'')) =
   [(''api-types'', ''https://github.com/o/r/pull/7'')]"
proof -
  let ?d = "\<lparr>gh_state = Some ''CLOSED'',
          statusCheckRollup = [\<lparr>chk_status = Some ''COMPLETED'', chk_conclusion = Some ''FAILURE''\<rparr>],
          gh_mergeable = None, mergeStateStatus = None\<rparr>"
  let ?env = "\<lparr>env_clock = (\<lambda>n. 0), env_gh = (\<lambda>n repo num. Data ?d)\<rparr>"
  let ?st = "\<lparr>remaining = [(''api-types'', ''https://github.com/o/r/pull/7'')], passed = [],
       failed = [], reads = 1, queries = [], sleeps = []\<rparr>"
  have m: "match_pr_url ''https://github.com/o/r/pull/7'' = Some (''o/r'', ''7'')"
    by (simp add: match_pr_url_def not_slash_def is_digit_def)
  have g: "env_gh ?env (reads ?st) ''o/r'' ''7'' = Data ?d" by simp
  have s: "gh_state ?d = Some ''CLOSED''" by simp
  have n: "\<not> spec_passed (statusCheckRollup ?d)" by (simp add: spec_passed_def)
  from closed_unless_checks_pass [OF m g s, of "''api-types''"] n
  have "failed (poll_pr ?env ?st (''api-types'', ''https://github.com/o/r/pull/7'')) =
          dict_set (failed ?st) ''api-types'' ''https://github.com/o/r/pull/7''"
    by blast
  then show ?thesis by (simp add: dict_set_def keys_def)
qed

text \<open>
  The three dicts of the loop share no label and hold, together, the labels \<open>L\<close>; the
  labels of \<^verbatim>\<open>remaining\<close> are distinct.
\<close>

definition partitioned :: "string set \<Rightarrow> watch \<Rightarrow> bool" where
  "partitioned L st =
     (distinct (keys (remaining st)) \<and>
      set (keys (passed st)) \<inter> set (keys (failed st)) = {} \<and>
      set (keys (passed st)) \<inter> set (keys (remaining st)) = {} \<and>
      set (keys (failed st)) \<inter> set (keys (remaining st)) = {} \<and>
      set (keys (passed st)) \<union> set (keys (failed st)) \<union> set (keys (remaining st)) = L)"

lemma poll_pr_partitioned:
  assumes "partitioned L st" and "label \<in> set (keys (remaining st))"
  shows "partitioned L (poll_pr env st (label, url))"
  using assms
  by (cases "classify (check_pr_status (env_gh env (reads st)) url)")
     (auto simp: partitioned_def poll_pr_fields Let_def keys_dict_set keys_dict_del
        distinct_dict_del)

lemma poll_pr_remaining:
  "set (keys (remaining st)) - {label} \<subseteq> set (keys (remaining (poll_pr env st (label, url))))"
  by (auto simp: poll_pr_fields Let_def keys_dict_del)

lemma poll_pr_reads: "reads (poll_pr env st item) = reads st + 1"
  by (cases item) (simp add: poll_pr_fields Let_def)

lemma foldl_poll_reads: "reads (foldl (poll_pr env) st items) = reads st + length items"
  by (induction items arbitrary: st) (simp_all add: poll_pr_reads)

lemma foldl_poll_partitioned:
  "partitioned L st \<Longrightarrow> distinct (keys items) \<Longrightarrow>
   set (keys items) \<subseteq> set (keys (remaining st)) \<Longrightarrow>
   partitioned L (foldl (poll_pr env) st items)"
proof (induction items arbitrary: st)
  case Nil
  then show ?case by simp
next
  case (Cons item items)
  obtain label url where item: "item = (label, url)" by (cases item)
  have in_rem: "label \<in> set (keys (remaining st))"
    using Cons.prems(3) item by (simp add: keys_def)
  have p: "partitioned L (poll_pr env st (label, url))"
    using Cons.prems(1) in_rem by (rule poll_pr_partitioned)
  have d: "distinct (keys items)" and nl: "label \<notin> set (keys items)"
    using Cons.prems(2) item by (simp_all add: keys_def)
  have "set (keys items) \<subseteq> set (keys (remaining st)) - {label}"
    using Cons.prems(3) nl by (auto simp: keys_def)
  then have s: "set (keys items) \<subseteq> set (keys (remaining (poll_pr env st (label, url))))"
    using poll_pr_remaining [of st label env url] by blast
  from Cons.IH [OF p d s] show ?case by (simp add: item)
qed

lemma partitioned_reads: "partitioned L st \<Longrightarrow> partitioned L (st\<lparr>reads := n\<rparr>)"
  by (simp add: partitioned_def)

lemma partitioned_sleeps: "partitioned L st \<Longrightarrow> partitioned L (st\<lparr>sleeps := n\<rparr>)"
  by (simp add: partitioned_def)

text \<open>The state after one round of the loop body: the polls, then the sleep.\<close>

definition after_round :: "env \<Rightarrow> int \<Rightarrow> watch \<Rightarrow> watch" where
  "after_round env interval st =
     (let st1 = foldl (poll_pr env) (st\<lparr>reads := reads st + 1\<rparr>) (remaining st)
      in if remaining st1 \<noteq> [] then st1\<lparr>sleeps := sleeps st1 @ [interval]\<rparr> else st1)"

lemma watch_loop_step:
  "remaining st \<noteq> [] \<Longrightarrow> env_clock env (reads st) - start < of_int (wait * 60) \<Longrightarrow>
   watch_loop (Suc fuel) env start wait interval st =
     watch_loop fuel env start wait interval (after_round env interval st)"
  by (simp add: after_round_def Let_def)

lemma after_round_partitioned:
  assumes "partitioned L st"
  shows "partitioned L (after_round env interval st)"
proof -
  have p0: "partitioned L (st\<lparr>reads := reads st + 1\<rparr>)"
    using assms by (rule partitioned_reads)
  have "distinct (keys (remaining st))"
    using assms by (simp add: partitioned_def)
  then have "partitioned L (foldl (poll_pr env) (st\<lparr>reads := reads st + 1\<rparr>) (remaining st))"
    using p0 by (intro foldl_poll_partitioned) simp_all
  then show ?thesis
    by (simp add: after_round_def Let_def partitioned_sleeps)
qed

lemma after_round_reads:
  "reads (after_round env interval st) = reads st + 1 + length (remaining st)"
  by (simp add: after_round_def Let_def foldl_poll_reads)

lemma watch_loop_partitioned:
  "partitioned L st \<Longrightarrow> watch_loop fuel env start wait interval st = Some st' \<Longrightarrow>
   partitioned L st'"
proof (induction fuel arbitrary: st)
  case 0
  then show ?case by simp
next
  case (Suc fuel)
  show ?case
  proof (cases "remaining st = []")
    case True
    with Suc.prems show ?thesis by simp
  next
    case False
    show ?thesis
    proof (cases "env_clock env (reads st) - start < of_int (wait * 60)")
      case guard: False
      with False Suc.prems(2) have "st' = st\<lparr>reads := reads st + 1\<rparr>" by simp
      with Suc.prems(1) show ?thesis by (simp add: partitioned_reads)
    next
      case guard: True
      have p2: "partitioned L (after_round env interval st)"
        using Suc.prems(1) by (rule after_round_partitioned)
      have "watch_loop fuel env start wait interval (after_round env interval st) = Some st'"
        using Suc.prems(2) watch_loop_step [OF False guard, of fuel interval] by simp
      from Suc.IH [OF p2 this] show ?thesis .
    qed
  qed
qed

text \<open>
  The loop ends: when every reading of the clock from the reading number \<open>n\<close> on is at
  least \<open>wait * 60\<close> seconds after \<open>start\<close>, fuel for \<open>n\<close> rounds beyond the readings
  already made is enough.
\<close>

lemma watch_loop_returns:
  "(\<forall>i\<ge>n. of_int (wait * 60) \<le> env_clock env i - start) \<Longrightarrow> n \<le> reads st + fuel \<Longrightarrow>
   \<exists>st'. watch_loop (Suc fuel) env start wait interval st = Some st'"
proof (induction fuel arbitrary: st)
  case 0
  then have "\<not> env_clock env (reads st) - start < of_int (wait * 60)"
    by (simp add: not_less)
  then show ?case by simp
next
  case (Suc fuel)
  show ?case
  proof (cases "remaining st \<noteq> [] \<and> env_clock env (reads st) - start < of_int (wait * 60)")
    case False
    then show ?thesis by auto
  next
    case True
    have "reads (after_round env interval st) = reads st + 1 + length (remaining st)"
      by (rule after_round_reads)
    with Suc.prems(2) have "n \<le> reads (after_round env interval st) + fuel" by simp
    from Suc.IH [OF Suc.prems(1) this] obtain st' where
      "watch_loop (Suc fuel) env start wait interval (after_round env interval st) = Some st'"
      by blast
    moreover have "watch_loop (Suc (Suc fuel)) env start wait interval st =
                     watch_loop (Suc fuel) env start wait interval (after_round env interval st)"
      using True by (intro watch_loop_step) simp_all
    ultimately show ?thesis by simp
  qed
qed

text \<open>
  C10. With no captured PR reference the phase returns at once: no provider query, no
  sleep, no reading of the clock and no final report. With at least one (the labels of
  a dict being distinct), every run that ends reports three lists of labels that are
  pairwise disjoint and hold together exactly the labels of the captured references;
  and the run ends when the clock passes the deadline and the fuel covers the rounds
  until then.
\<close>

theorem phase3_report_partitions_labels:
  assumes "distinct (keys (pr_urls state))"
  shows "(pr_urls state = [] \<longrightarrow>
            phase3_run fuel env state max_wait_mins poll_secs =
              Some \<lparr>final_report = None, gh_calls = [], slept = [], clock_reads = 0\<rparr>) \<and>
         (pr_urls state \<noteq> [] \<longrightarrow>
            (\<forall>res. phase3_run fuel env state max_wait_mins poll_secs = Some res \<longrightarrow>
               (\<exists>rep. final_report res = Some rep \<and>
                  set (rep_passed rep) \<inter> set (rep_failed rep) = {} \<and>
                  set (rep_passed rep) \<inter> set (rep_timed_out rep) = {} \<and>
                  set (rep_failed rep) \<inter> set (rep_timed_out rep) = {} \<and>
                  set (rep_passed rep) \<union> set (rep_failed rep) \<union> set (rep_timed_out rep) =
                    set (keys (pr_urls state))))) \<and>
         (pr_urls state \<noteq> [] \<and> n < fuel \<and>
          (\<forall>i\<ge>n. of_int (int_or max_wait_mins MAX_CI_WAIT_MINS * 60) \<le>
                    env_clock env i - env_clock env 0) \<longrightarrow>
            (\<exists>res. phase3_run fuel env state max_wait_mins poll_secs = Some res))"
proof (intro conjI impI allI)
  assume "pr_urls state = []"
  then show "phase3_run fuel env state max_wait_mins poll_secs =
              Some \<lparr>final_report = None, gh_calls = [], slept = [], clock_reads = 0\<rparr>"
    by (simp add: phase3_run_def)
next
  fix res
  assume ne: "pr_urls state \<noteq> []"
    and run: "phase3_run fuel env state max_wait_mins poll_secs = Some res"
  let ?st0 = "\<lparr>remaining = pr_urls state, passed = [], failed = [], reads = 1,
               queries = [], sleeps = []\<rparr>"
  from run ne obtain st where
    loop: "watch_loop fuel env (env_clock env 0) (int_or max_wait_mins MAX_CI_WAIT_MINS)
             (int_or poll_secs POLL_INTERVAL_SECS) ?st0 = Some st"
    and res: "res = \<lparr>final_report =
                      Some \<lparr>rep_passed = keys (passed st), rep_failed = keys (failed st),
                            rep_timed_out = keys (remaining st)\<rparr>,
                    gh_calls = queries st, slept = sleeps st, clock_reads = reads st\<rparr>"
    by (auto simp: phase3_run_def Let_def split: option.splits)
  have "partitioned (set (keys (pr_urls state))) ?st0"
    using assms by (simp add: partitioned_def keys_def)
  from watch_loop_partitioned [OF this loop]
  have "partitioned (set (keys (pr_urls state))) st" .
  then show "\<exists>rep. final_report res = Some rep \<and>
                  set (rep_passed rep) \<inter> set (rep_failed rep) = {} \<and>
                  set (rep_passed rep) \<inter> set (rep_timed_out rep) = {} \<and>
                  set (rep_failed rep) \<inter> set (rep_timed_out rep) = {} \<and>
                  set (rep_passed rep) \<union> set (rep_failed rep) \<union> set (rep_timed_out rep) =
                    set (keys (pr_urls state))"
    by (simp add: res partitioned_def)
next
  assume a: "pr_urls state \<noteq> [] \<and> n < fuel \<and>
          (\<forall>i\<ge>n. of_int (int_or max_wait_mins MAX_CI_WAIT_MINS * 60) \<le>
                    env_clock env i - env_clock env 0)"
  let ?st0 = "\<lparr>remaining = pr_urls state, passed = [], failed = [], reads = 1,
               queries = [], sleeps = []\<rparr>"
  from a obtain f where f: "fuel = Suc f" by (cases fuel) auto
  with a have "n \<le> reads ?st0 + f" by simp
  with a have "\<exists>st'. watch_loop (Suc f) env (env_clock env 0)
                 (int_or max_wait_mins MAX_CI_WAIT_MINS) (int_or poll_secs POLL_INTERVAL_SECS)
                 ?st0 = Some st'"
    by (intro watch_loop_returns) blast+
  then show "\<exists>res. phase3_run fuel env state max_wait_mins poll_secs = Some res"
    using a f by (auto simp: phase3_run_def Let_def simp del: watch_loop.simps)
qed

theorem phase3_report_partitions_labels_witness:
  "\<exists>res rep.
     phase3_run 3
       \<lparr>env_clock = (\<lambda>n. 4000 * real n), env_gh = (\<lambda>n repo num. Nonzero)\<rparr>
       \<lparr>ep_url = ''e'', repo_short_name = ''r'', repo_url = ''u'', base_branch = ''main'',
        repo_local_path = ''p'', api_types_path = [], api_summary_md = [],
        pr_urls = [(''api-types'', ''https://github.com/o/r/pull/7''),
                   (''controller'', ''https://github.com/o/r/pull/8'')]\<rparr>
       None None = Some res \<and>
     final_report res = Some rep \<and>
     set (rep_passed rep) \<inter> set (rep_failed rep) = {} \<and>
     set (rep_passed rep) \<inter> set (rep_timed_out rep) = {} \<and>
     set (rep_failed rep) \<inter> set (rep_timed_out rep) = {} \<and>
     set (rep_passed rep) \<union> set (rep_failed rep) \<union> set (rep_timed_out rep) =
       {''api-types'', ''controller''}"
proof -
  let ?env = "\<lparr>env_clock = (\<lambda>n. 4000 * real n), env_gh = (\<lambda>n repo num. Nonzero)\<rparr>"
  let ?state = "\<lparr>ep_url = ''e'', repo_short_name = ''r'', repo_url = ''u'', base_branch = ''main'',
        repo_local_path = ''p'', api_types_path = [], api_summary_md = [],
        pr_urls = [(''api-types'', ''https://github.com/o/r/pull/7''),
                   (''controller'', ''https://github.com/o/r/pull/8'')]\<rparr>"
  have d: "distinct (keys (pr_urls ?state))" by (simp add: keys_def)
  have ne: "pr_urls ?state \<noteq> []" by simp
  have late: "\<forall>i\<ge>2. of_int (int_or None MAX_CI_WAIT_MINS * 60) \<le>
                env_clock ?env i - env_clock ?env 0"
  proof (intro allI impI)
    fix i :: nat
    assume "2 \<le> i"
    then have "(2::real) \<le> real i" by simp
    then show "of_int (int_or None MAX_CI_WAIT_MINS * 60) \<le>
                env_clock ?env i - env_clock ?env 0"
      by (simp add: int_or_def MAX_CI_WAIT_MINS_def)
  qed
  note t = phase3_report_partitions_labels [OF d, of 3 ?env None None 2]
  from t ne late obtain res where
    run: "phase3_run 3 ?env ?state None None = Some res" by auto
  from t ne run obtain rep where "final_report res = Some rep \<and>
     set (rep_passed rep) \<inter> set (rep_failed rep) = {} \<and>
     set (rep_passed rep) \<inter> set (rep_timed_out rep) = {} \<and>
     set (rep_failed rep) \<inter> set (rep_timed_out rep) = {} \<and>
     set (rep_passed rep) \<union> set (rep_failed rep) \<union> set (rep_timed_out rep) =
       set (keys (pr_urls ?state))"
    by blast
  with run show ?thesis by (auto simp: keys_def)
qed

text \<open>
  \<^verbatim>\<open>wait = max_wait_mins or MAX_CI_WAIT_MINS\<close> takes the default of 120 minutes for a
  maximum wait of 0, so that a run with the maximum wait 0 is a run with none given.
\<close>

lemma zero_wait_is_default:
  "phase3_run fuel env state (Some 0) poll_secs = phase3_run fuel env state None poll_secs"
  by (simp add: phase3_run_def int_or_def)

text \<open>
  C3 at one input: the maximum wait is 0, the clock advances by 1000 seconds at each
  reading, and the one reference is pending at the first query and has its one check
  green at the second. The watcher queries the provider twice, sleeps in between, and
  reports the reference as passed; it does not report it as timed out.
\<close>

theorem zero_wait_polls_twice:
  "phase3_run 3
     \<lparr>env_clock = (\<lambda>n. 1000 * real n),
      env_gh = (\<lambda>n repo num.
         Data \<lparr>gh_state = Some ''OPEN'',
               statusCheckRollup =
                 [\<lparr>chk_status = Some (if n < 4 then ''IN_PROGRESS'' else ''COMPLETED''),
                   chk_conclusion = (if n < 4 then None else Some ''SUCCESS'')\<rparr>],
               gh_mergeable = None, mergeStateStatus = None\<rparr>)\<rparr>
     \<lparr>ep_url = ''e'', repo_short_name = ''r'', repo_url = ''u'', base_branch = ''main'',
      repo_local_path = ''p'', api_types_path = [], api_summary_md = [],
      pr_urls = [(''api-types'', ''https://github.com/o/r/pull/7'')]\<rparr>
     (Some 0) None =
   Some \<lparr>final_report =
           Some \<lparr>rep_passed = [''api-types''], rep_failed = [], rep_timed_out = []\<rparr>,
         gh_calls = [(''o/r'', ''7''), (''o/r'', ''7'')], slept = [60], clock_reads = 5\<rparr>"
  by (simp add: phase3_run_def int_or_def MAX_CI_WAIT_MINS_def POLL_INTERVAL_SECS_def
        numeral_3_eq_3 poll_pr_def classify_def check_pr_status_def match_pr_url_def
        not_slash_def is_digit_def completed_def non_failing_def dict_set_def dict_del_def
        keys_def)

section \<open>Properties of the phases\<close>

lemma backtrack_nonempty: "backtrack k rest = Some m \<Longrightarrow> m \<noteq> []"
  by (induction k) (auto split: if_splits)

lemma match_here_nonempty: "match_here s = Some m \<Longrightarrow> m \<noteq> []"
  by (auto simp: match_here_def split: option.splits)

lemma extract_pr_url_nonempty: "extract_pr_url t = Some u \<Longrightarrow> u \<noteq> []"
  by (induction t) (auto split: option.splits dest: match_here_nonempty)

lemma truthy_extract: "truthy (extract_pr_url t) = (extract_pr_url t \<noteq> None)"
  by (cases "extract_pr_url t") (auto simp: truthy_def dest: extract_pr_url_nonempty)

lemma controller_prompt_pr_urls [simp]:
  "controller_prompt stamp (state\<lparr>pr_urls := p\<rparr>) = controller_prompt stamp state"
  by (simp add: controller_prompt_def)

lemma e2e_prompt_pr_urls [simp]:
  "e2e_prompt stamp (state\<lparr>pr_urls := p\<rparr>) = e2e_prompt stamp state"
  by (simp add: e2e_prompt_def)

text \<open>
  A sub-agent changes the state only by writing its key of \<^verbatim>\<open>pr_urls\<close>, and only when
  it returns a PR reference; what it returns does not depend on \<^verbatim>\<open>pr_urls\<close>.
\<close>

lemma run_controller_state:
  "snd (run_controller agent stamp state) =
     (case fst (run_controller agent stamp state) of
        Inl e \<Rightarrow> state
      | Inr r \<Rightarrow> (case returned r of
                    None \<Rightarrow> state
                  | Some u \<Rightarrow> state\<lparr>pr_urls := dict_set (pr_urls state) ''controller'' u\<rparr>))"
  by (auto simp: run_controller_def Let_def truthy_extract split: sum.splits option.splits)

lemma run_e2e_tests_state:
  "snd (run_e2e_tests agent stamp state) =
     (case fst (run_e2e_tests agent stamp state) of
        Inl e \<Rightarrow> state
      | Inr r \<Rightarrow> (case returned r of
                    None \<Rightarrow> state
                  | Some u \<Rightarrow> state\<lparr>pr_urls := dict_set (pr_urls state) ''e2e-tests'' u\<rparr>))"
  by (auto simp: run_e2e_tests_def Let_def truthy_extract split: sum.splits option.splits)

lemma run_controller_pr_urls:
  "fst (run_controller agent stamp (state\<lparr>pr_urls := p\<rparr>)) = fst (run_controller agent stamp state)"
  by (auto simp: run_controller_def Let_def split: sum.splits)



lemma run_e2e_tests_returned:
  "fst (run_e2e_tests agent stamp state) = Inr r \<Longrightarrow> returned r = Some u \<Longrightarrow> u \<noteq> []"
  by (auto simp: run_e2e_tests_def Let_def split: sum.splits if_splits
           dest: extract_pr_url_nonempty)



text \<open>
  In the whole run: once phase 1 has found the repository, a controller sub-agent that
  raises beside an e2e sub-agent that returns a PR reference does not end the run;
  the watcher of phase 3 runs on the state with that reference.
\<close>

lemma fan_out_failure_reaches_phase3:
  assumes "prompt_ep_url line = Inr url"
      and "phase1_run agent1 cwd d stamp1
             \<lparr>ep_url = url, repo_short_name = repo_short, repo_url = ru, base_branch = bb,
              repo_local_path = [], api_types_path = [], api_summary_md = [], pr_urls = []\<rparr> =
           (Inr sent, state1)"
      and "repo_local_path state1 \<noteq> []"
      and "fst (run_controller ca sa state1) = Inl (Exception x)"
      and "fst (run_e2e_tests ea sb state1) = Inr r" and "returned r = Some u"
  shows "main_run_workflow line (Some (repo_short, ru, bb)) agent1 cwd d stamp1 e2e_first
           ca ea sa sb fuel env =
         Completed [''  Controller sub-agent failed: '' @ x, ''  E2E Tests PR: '' @ u]
           (phase3_run fuel env
              (state1\<lparr>pr_urls := dict_set (pr_urls state1) ''e2e-tests'' u\<rparr>) None None)"
proof -
  have "phase2_run e2e_first ca ea sa sb state1 =
        (Inr [''  Controller sub-agent failed: '' @ x, ''  E2E Tests PR: '' @ u],
         state1\<lparr>pr_urls := dict_set (pr_urls state1) ''e2e-tests'' u\<rparr>)"
  proof -
    let ?s = "state1\<lparr>pr_urls := dict_set (pr_urls state1) ''e2e-tests'' u\<rparr>"
    from assms(5,6) have u: "u \<noteq> []" by (blast dest: run_e2e_tests_returned)
    have e: "run_e2e_tests ea sb state1 = (Inr r, ?s)"
      using assms(5,6) run_e2e_tests_state [of ea sb state1] by (simp add: prod_eq_iff)
    have c: "run_controller ca sa state1 = (Inl (Exception x), state1)"
      using assms(4) run_controller_state [of ca sa state1] by (simp add: prod_eq_iff)
    have c': "run_controller ca sa ?s = (Inl (Exception x), ?s)"
      using assms(4) run_controller_state [of ca sa ?s]
        run_controller_pr_urls [of ca sa _ state1]
      by (simp add: prod_eq_iff)
    show ?thesis
      using assms(6) u
      by (simp add: phase2_run_def e c c' is_base_def report_line_def truthy_def)
  qed
  then show ?thesis
    using assms(1,2,3) by (simp add: main_run_workflow_def)
qed

text \<open>
  The follow-up of the two sub-agents of phase 2. When the first response holds no
  PR reference, the sub-agent sends the follow-up prompt, once, and extracts once more
  from the response to it; without a reference there either, it returns \<^verbatim>\<open>None\<close>
  and leaves the state as it was.
\<close>

lemma controller_follow_up_once:
  assumes "agent [controller_prompt stamp state] = Inr msgs"
      and "extract_pr_url (extract_text msgs) = None"
      and "agent [controller_prompt stamp state, follow_up_prompt] = Inr msgs2"
  shows "run_controller agent stamp state =
           (Inr \<lparr>returned = extract_pr_url (extract_text msgs2),
                 prompts = [controller_prompt stamp state, follow_up_prompt]\<rparr>,
            case extract_pr_url (extract_text msgs2) of
              None \<Rightarrow> state
            | Some u \<Rightarrow> state\<lparr>pr_urls := dict_set (pr_urls state) ''controller'' u\<rparr>)"
  using assms
  by (auto simp: run_controller_def Let_def truthy_extract truthy_def split: option.splits
           dest: extract_pr_url_nonempty)

lemma e2e_follow_up_once:
  assumes "agent [e2e_prompt stamp state] = Inr msgs"
      and "extract_pr_url (extract_text msgs) = None"
      and "agent [e2e_prompt stamp state, follow_up_prompt] = Inr msgs2"
  shows "run_e2e_tests agent stamp state =
           (Inr \<lparr>returned = extract_pr_url (extract_text msgs2),
                 prompts = [e2e_prompt stamp state, follow_up_prompt]\<rparr>,
            case extract_pr_url (extract_text msgs2) of
              None \<Rightarrow> state
            | Some u \<Rightarrow> state\<lparr>pr_urls := dict_set (pr_urls state) ''e2e-tests'' u\<rparr>)"
  using assms
  by (auto simp: run_e2e_tests_def Let_def truthy_extract truthy_def split: option.splits
           dest: extract_pr_url_nonempty)

text \<open>Phase 1 sends its five prompts and no other, whatever the responses hold.\<close>

lemma phase1_five_prompts:
  "phase1_run agent cwd d stamp state = (Inr sent, state') \<Longrightarrow>
   length sent = 5 \<and> follow_up_prompt \<notin> set sent"
  by (auto simp: phase1_run_def Let_def step3_prompt_def step4_prompt_def step5_prompt_def
        follow_up_prompt_def step2_prompt_def split: sum.splits)

text \<open>
  C8 in phase 1, at one input: every response of the session is empty, so that the
  response to step 5 holds no PR reference. The phase ends after the five prompts of
  its script, with no follow-up prompt and no second extraction, and with no
  reference in \<^verbatim>\<open>state.pr_urls\<close>.
\<close>

theorem phase1_no_follow_up:
  "phase1_run (\<lambda>sent. Inr []) ''/w'' \<lparr>cloned_dir_is_dir = True, git_children = []\<rparr> ''17''
     \<lparr>ep_url = ''e'', repo_short_name = ''r'', repo_url = ''u'', base_branch = ''main'',
      repo_local_path = [], api_types_path = [], api_summary_md = [], pr_urls = []\<rparr> =
   (Inr [''/oape:init r'',
         ''cd /w/.oape-work/phase1-api-types/r && /oape:api-generate e'',
         step3_prompt, step4_prompt,
         step5_prompt ''oape/api-types-17''
           \<lparr>ep_url = ''e'', repo_short_name = ''r'', repo_url = ''u'', base_branch = ''main'',
            repo_local_path = ''/w/.oape-work/phase1-api-types/r'', api_types_path = [],
            api_summary_md = [], pr_urls = []\<rparr>],
    \<lparr>ep_url = ''e'', repo_short_name = ''r'', repo_url = ''u'', base_branch = ''main'',
     repo_local_path = ''/w/.oape-work/phase1-api-types/r'', api_types_path = [],
     api_summary_md = ''/w/.oape-work/phase1-api-types/api-types-summary.md'',
     pr_urls = []\<rparr>)"
  by (simp add: phase1_run_def locate_repo_def step2_prompt_def extract_text_def join_nl_def
        match_here_def truthy_def)

end
